theory Spec2Isabelle
  imports Main "HOL-Library.Word"
begin

unbundle bit_operations_syntax


section \<open>JavaScript values and strings\<close>

text \<open>
  A JavaScript string is modelled as a \<open>string\<close> whose characters are the code units
  0..255 (header names, header values, topics, paths and the secret are such strings). A
  \<open>Buffer\<close> is a list of bytes. The text decoded from a \<open>Buffer\<close> can hold any Unicode
  scalar value and is a list of code points.
\<close>

type_synonym byte = "8 word"

text \<open>
  A parsed response body (\<open>any\<close> / \<open>unknown\<close> in the source). \<open>JObj kvs\<close> has the property
  \<open>k\<close> with value \<open>map_of kvs k\<close>.
\<close>

datatype jsval =
    JUndefined
  | JNull
  | JBool bool
  | JNum int
  | JStr string
  | JArr "jsval list"
  | JObj "(string \<times> jsval) list"

datatype error =
    TypeError
  | InvalidWebhookError string
  | TransportError string

text \<open>JavaScript truthiness, as \<open>Boolean(v)\<close>, \<open>if (v)\<close> and \<open>v && w\<close> use it.\<close>

fun truthy :: "jsval \<Rightarrow> bool" where
  "truthy JUndefined = False"
| "truthy JNull = False"
| "truthy (JBool b) = b"
| "truthy (JNum n) = (n \<noteq> 0)"
| "truthy (JStr s) = (s \<noteq> [])"
| "truthy (JArr xs) = True"
| "truthy (JObj kvs) = True"

text \<open>
  Property access \<open>v.k\<close> for an own property name \<open>k\<close> (the names used by the source are
  \<open>data\<close>, the four mutation names and \<open>webhookSubscription\<close>): reading a property of
  \<open>undefined\<close> or \<open>null\<close> throws a TypeError, a primitive or an array has no such
  property.
\<close>

fun getProp :: "jsval \<Rightarrow> string \<Rightarrow> error + jsval" where
  "getProp JUndefined k = Inl TypeError"
| "getProp JNull k = Inl TypeError"
| "getProp (JObj kvs) k = Inr (case map_of kvs k of None \<Rightarrow> JUndefined | Some v \<Rightarrow> v)"
| "getProp v k = Inr JUndefined"

text \<open>
  \<open>String.prototype.toLowerCase\<close> and \<open>toUpperCase\<close> on strings of the code units
  0..255 (Unicode's case mappings, which do not depend on the locale).

  Lower case: A-Z and the letters 0xC0..0xDE other than 0xD7 (the multiplication sign) move
  up by 32; every other code unit stays.

  Upper case: a-z and the letters 0xE0..0xFE other than 0xF7 (the division sign) move down
  by 32; 0xDF (sharp s) becomes the two letters \<open>SS\<close>; 0xB5 (micro sign) becomes U+039C
  and 0xFF becomes U+0178, which are code units above 255; every other code unit stays.
  A string with a code unit above 255 is none of the strings modelled here and equals none
  of them, so the upper case of a string is \<open>None\<close> when it has such a code unit.
\<close>

definition toLowerChar :: "char \<Rightarrow> char" where
  "toLowerChar c =
     (let n = of_char c :: nat
      in if (65 \<le> n \<and> n \<le> 90) \<or> (192 \<le> n \<and> n \<le> 222 \<and> n \<noteq> 215)
         then char_of (n + 32)
         else c)"

definition toUpperChar :: "char \<Rightarrow> string option" where
  "toUpperChar c =
     (let n = of_char c :: nat
      in if (97 \<le> n \<and> n \<le> 122) \<or> (224 \<le> n \<and> n \<le> 254 \<and> n \<noteq> 247)
         then Some [char_of (n - 32)]
         else if n = 223 then Some ''SS''
         else if n = 181 \<or> n = 255 then None
         else Some [c])"

definition toLowerCase :: "string \<Rightarrow> string" where
  "toLowerCase s = map toLowerChar s"

fun toUpperCase :: "string \<Rightarrow> string option" where
  "toUpperCase [] = Some []"
| "toUpperCase (c # cs) =
     (case toUpperChar c of
        None \<Rightarrow> None
      | Some u \<Rightarrow> (case toUpperCase cs of None \<Rightarrow> None | Some us \<Rightarrow> Some (u @ us)))"

text \<open>\<open>s.replace(/\//g, '_')\<close>\<close>

definition replace_slash :: "string \<Rightarrow> string" where
  "replace_slash s = map (\<lambda>c. if c = CHR ''/'' then CHR ''_'' else c) s"

text \<open>\<open>Array.prototype.join\<close>\<close>

fun join :: "string \<Rightarrow> string list \<Rightarrow> string" where
  "join sep [] = []"
| "join sep [x] = x"
| "join sep (x # y # r) = x @ sep @ join sep (y # r)"

section \<open>UTF-8\<close>

text \<open>
  \<open>body.toString('utf-8')\<close> decodes the bytes of the buffer as UTF-8; every ill-formed
  sequence becomes U+FFFD. The decoder is the state machine of the Encoding Standard:
  \<open>needed\<close> continuation bytes are still expected, \<open>cp\<close> is the code point read so far
  and the next byte has to be within \<open>lo..hi\<close>. A byte that cannot continue the sequence
  closes it with U+FFFD and is read again as the start of a new sequence.
\<close>

fun utf8_decode :: "nat \<Rightarrow> nat \<Rightarrow> nat \<Rightarrow> nat \<Rightarrow> nat list \<Rightarrow> nat list" where
  "utf8_decode needed cp lo hi [] = (if needed = 0 then [] else [0xFFFD])"
| "utf8_decode needed cp lo hi (b # bs) =
     (if needed = 0 then
        (if b \<le> 0x7F then b # utf8_decode 0 0 0x80 0xBF bs
         else if 0xC2 \<le> b \<and> b \<le> 0xDF then utf8_decode 1 (b mod 32) 0x80 0xBF bs
         else if 0xE0 \<le> b \<and> b \<le> 0xEF then
           utf8_decode 2 (b mod 16) (if b = 0xE0 then 0xA0 else 0x80)
             (if b = 0xED then 0x9F else 0xBF) bs
         else if 0xF0 \<le> b \<and> b \<le> 0xF4 then
           utf8_decode 3 (b mod 8) (if b = 0xF0 then 0x90 else 0x80)
             (if b = 0xF4 then 0x8F else 0xBF) bs
         else 0xFFFD # utf8_decode 0 0 0x80 0xBF bs)
      else if b < lo \<or> hi < b then 0xFFFD # utf8_decode 0 0 0x80 0xBF (b # bs)
      else if needed = 1 then (cp * 64 + b mod 64) # utf8_decode 0 0 0x80 0xBF bs
      else utf8_decode (needed - 1) (cp * 64 + b mod 64) 0x80 0xBF bs)"

definition Buffer_toString_utf8 :: "byte list \<Rightarrow> nat list" where
  "Buffer_toString_utf8 body = utf8_decode 0 0 0x80 0xBF (map unat body)"

text \<open>
  Encoding a string as UTF-8 (\<open>update(str, 'utf8')\<close>, and the key given to
  \<open>createHmac\<close> as a string). A lone surrogate is written as U+FFFD.
\<close>

definition utf8_encode_cp :: "nat \<Rightarrow> nat list" where
  "utf8_encode_cp cp =
     (if cp < 0x80 then [cp]
      else if cp < 0x800 then [0xC0 + cp div 64, 0x80 + cp mod 64]
      else if 0xD800 \<le> cp \<and> cp \<le> 0xDFFF then [0xEF, 0xBF, 0xBD]
      else if cp < 0x10000 then [0xE0 + cp div 4096, 0x80 + cp div 64 mod 64, 0x80 + cp mod 64]
      else [0xF0 + cp div 262144, 0x80 + cp div 4096 mod 64, 0x80 + cp div 64 mod 64,
            0x80 + cp mod 64])"

definition utf8_encode :: "nat list \<Rightarrow> nat list" where
  "utf8_encode cps = concat (map utf8_encode_cp cps)"

definition string_code_units :: "string \<Rightarrow> nat list" where
  "string_code_units s = map of_char s"

section \<open>SHA-256, HMAC and Base64 (\<open>createHmac('sha256', key).update(..).digest('base64')\<close>)\<close>

text \<open>
  The hash of Node's \<open>crypto\<close> module: SHA-256 (FIPS 180-4) on 32-bit words, written on
  \<open>nat\<close> with the reduction modulo \<open>2^32\<close> spelled out, HMAC (RFC 2104) with the block
  size 64, and Base64 (RFC 4648) with padding. Bytes are numbers below 256.
\<close>

definition add32 :: "nat \<Rightarrow> nat \<Rightarrow> nat" where
  "add32 a b = (a + b) mod 4294967296"

definition rotr :: "nat \<Rightarrow> nat \<Rightarrow> nat" where
  "rotr n x = x div 2 ^ n + (x mod 2 ^ n) * 2 ^ (32 - n)"

definition shr :: "nat \<Rightarrow> nat \<Rightarrow> nat" where
  "shr n x = x div 2 ^ n"

text \<open>The round constants and the initial hash value of FIPS 180-4, in decimal.\<close>

definition K256 :: "nat list" where
  "K256 = [
   1116352408, 1899447441, 3049323471, 3921009573, 961987163, 1508970993, 2453635748, 2870763221,
   3624381080, 310598401, 607225278, 1426881987, 1925078388, 2162078206, 2614888103, 3248222580,
   3835390401, 4022224774, 264347078, 604807628, 770255983, 1249150122, 1555081692, 1996064986,
   2554220882, 2821834349, 2952996808, 3210313671, 3336571891, 3584528711, 113926993, 338241895,
   666307205, 773529912, 1294757372, 1396182291, 1695183700, 1986661051, 2177026350, 2456956037,
   2730485921, 2820302411, 3259730800, 3345764771, 3516065817, 3600352804, 4094571909, 275423344,
   430227734, 506948616, 659060556, 883997877, 958139571, 1322822218, 1537002063, 1747873779,
   1955562222, 2024104815, 2227730452, 2361852424, 2428436474, 2756734187, 3204031479, 3329325298]"

type_synonym hstate = "nat \<times> nat \<times> nat \<times> nat \<times> nat \<times> nat \<times> nat \<times> nat"

definition H0 :: hstate where
  "H0 = (1779033703, 3144134277, 1013904242, 2773480762,
         1359893119, 2600822924, 528734635, 1541459225)"

fun words_of :: "nat list \<Rightarrow> nat list" where
  "words_of (a # b # c # d # r) = (a * 16777216 + b * 65536 + c * 256 + d) # words_of r"
| "words_of r = []"

definition bytes_of32 :: "nat \<Rightarrow> nat list" where
  "bytes_of32 w = [w div 16777216, w div 65536 mod 256, w div 256 mod 256, w mod 256]"

text \<open>Padding: the bit 1, zeros, and the length in bits as a 64-bit big-endian number.\<close>

definition pad :: "nat list \<Rightarrow> nat list" where
  "pad m = m @ [0x80] @ replicate ((119 - length m mod 64) mod 64) 0
             @ bytes_of32 (8 * length m div 4294967296 mod 4294967296)
             @ bytes_of32 (8 * length m mod 4294967296)"

definition ssig0 :: "nat \<Rightarrow> nat" where
  "ssig0 x = rotr 7 x XOR rotr 18 x XOR shr 3 x"

definition ssig1 :: "nat \<Rightarrow> nat" where
  "ssig1 x = rotr 17 x XOR rotr 19 x XOR shr 10 x"

definition bsig0 :: "nat \<Rightarrow> nat" where
  "bsig0 x = rotr 2 x XOR rotr 13 x XOR rotr 22 x"

definition bsig1 :: "nat \<Rightarrow> nat" where
  "bsig1 x = rotr 6 x XOR rotr 11 x XOR rotr 25 x"

definition Ch :: "nat \<Rightarrow> nat \<Rightarrow> nat \<Rightarrow> nat" where
  "Ch x y z = (x AND y) XOR ((4294967295 - x) AND z)"

definition Maj :: "nat \<Rightarrow> nat \<Rightarrow> nat \<Rightarrow> nat" where
  "Maj x y z = (x AND y) XOR (x AND z) XOR (y AND z)"

text \<open>
  The message schedule is kept as a window of the sixteen latest words: its head is the
  word of the current round, and the word sixteen rounds ahead is appended.
\<close>

definition sched :: "nat list \<Rightarrow> nat" where
  "sched w = add32 (add32 (add32 (ssig1 (w ! 14)) (w ! 9)) (ssig0 (w ! 1))) (w ! 0)"

fun round256 :: "nat \<Rightarrow> nat \<Rightarrow> hstate \<Rightarrow> hstate" where
  "round256 k w (a, b, c, d, e, f, g, h) =
     (let t1 = add32 (add32 (add32 (add32 h (bsig1 e)) (Ch e f g)) k) w;
          t2 = add32 (bsig0 a) (Maj a b c)
      in (add32 t1 t2, a, b, c, add32 d t1, e, f, g))"

fun rounds :: "nat list \<Rightarrow> nat list \<Rightarrow> hstate \<Rightarrow> hstate" where
  "rounds [] w s = s"
| "rounds (k # ks) w s = rounds ks (tl w @ [sched w]) (round256 k (hd w) s)"

fun add_state :: "hstate \<Rightarrow> hstate \<Rightarrow> hstate" where
  "add_state (a, b, c, d, e, f, g, h) (a', b', c', d', e', f', g', h') =
     (add32 a a', add32 b b', add32 c c', add32 d d',
      add32 e e', add32 f f', add32 g g', add32 h h')"

definition compress :: "hstate \<Rightarrow> nat list \<Rightarrow> hstate" where
  "compress h blk = add_state h (rounds K256 (words_of blk) h)"

fun sha_blocks :: "hstate \<Rightarrow> nat list \<Rightarrow> hstate" where
  "sha_blocks h m =
     (if length m < 64 then h else sha_blocks (compress h (take 64 m)) (drop 64 m))"

declare sha_blocks.simps [simp del]

fun digest_bytes :: "hstate \<Rightarrow> nat list" where
  "digest_bytes (a, b, c, d, e, f, g, h) =
     bytes_of32 a @ bytes_of32 b @ bytes_of32 c @ bytes_of32 d @
     bytes_of32 e @ bytes_of32 f @ bytes_of32 g @ bytes_of32 h"

definition sha256 :: "nat list \<Rightarrow> nat list" where
  "sha256 m = digest_bytes (sha_blocks H0 (pad m))"

definition hmac_sha256 :: "nat list \<Rightarrow> nat list \<Rightarrow> nat list" where
  "hmac_sha256 key m =
     (let k0 = (if 64 < length key then sha256 key else key);
          k = k0 @ replicate (64 - length k0) 0
      in sha256 (map (\<lambda>b. b XOR 0x5c) k @ sha256 (map (\<lambda>b. b XOR 0x36) k @ m)))"

definition b64char :: "nat \<Rightarrow> char" where
  "b64char n = ''ABCDEFGHIJKLMNOPQRSTUVWXYZabcdefghijklmnopqrstuvwxyz0123456789+/'' ! n"

fun base64 :: "nat list \<Rightarrow> string" where
  "base64 (a # b # c # r) =
     b64char (a div 4) # b64char (a mod 4 * 16 + b div 16) #
     b64char (b mod 16 * 4 + c div 64) # b64char (c mod 64) # base64 r"
| "base64 [a, b] =
     [b64char (a div 4), b64char (a mod 4 * 16 + b div 16), b64char (b mod 16 * 4), CHR ''='']"
| "base64 [a] = [b64char (a div 4), b64char (a mod 4 * 16), CHR ''='', CHR ''='']"
| "base64 [] = []"

text \<open>
  \<open>createHmac('sha256', key).update(str, 'utf8').digest('base64')\<close> for a string key and
  a text \<open>str\<close>: both are written as UTF-8 before they are hashed.
\<close>

definition createHmac_sha256_base64 :: "string \<Rightarrow> nat list \<Rightarrow> string" where
  "createHmac_sha256_base64 key str =
     base64 (hmac_sha256 (utf8_encode (string_code_units key)) (utf8_encode str))"

section \<open>The webhook registry (\<open>src/webhooks/registry.ts\<close>)\<close>

datatype DeliveryMethod = Http | EventBridge

text \<open>
  A webhook handler is a caller-supplied function \<open>(topic, shop_domain, body) => void\<close>.
  It is kept as a value of an arbitrary type \<open>'h\<close>; calling it is recorded as an event.
\<close>

record 'h WebhookRegistryEntry =
  path :: string
  topic :: string
  webhookHandler :: 'h

text \<open>
  \<open>RegisterOptions\<close> has the three fields of an entry and the fields below
  (\<open>apiVersion\<close> is never read by \<open>register\<close>).
\<close>

record 'h RegisterOptions = "'h WebhookRegistryEntry" +
  shop :: string
  accessToken :: string
  deliveryMethod :: "DeliveryMethod option"

record RegisterReturn =
  success :: bool
  result :: jsval

datatype StatusCode = Ok | Forbidden

record ProcessReturn =
  statusCode :: StatusCode
  headers :: "(string \<times> string) list"

text \<open>
  \<open>WebhookCheckResponse\<close>: the array \<open>data.webhookSubscriptions.edges\<close>, each element
  with its \<open>node.id\<close> and \<open>node.callbackUrl\<close>.
\<close>

record WebhookCheckResponseNode =
  node_id :: string
  node_callbackUrl :: string

type_synonym WebhookCheckResponse = "WebhookCheckResponseNode list"

text \<open>
  The process-wide configuration \<open>Context\<close> and the header names \<open>ShopifyHeader\<close> are
  declared outside this file; they are parameters.
\<close>

record Context =
  HOST_NAME :: string
  API_SECRET_KEY :: string

record ShopifyHeader =
  Hmac :: string
  Topic :: string
  Domain' :: string

text \<open>
  The transport \<open>client.query({data})\<close> of a \<open>GraphqlClient\<close>: it answers a query text
  with a response body or fails. The source reads the body of the existence check at the
  type \<open>WebhookCheckResponse\<close> and the body of the mutation at the type \<open>any\<close>, so the
  client is given with one function for each of the two types.
\<close>

record transport =
  query_check :: "string \<Rightarrow> error + WebhookCheckResponse"
  query_any :: "string \<Rightarrow> error + jsval"

text \<open>What an operation does besides returning: the calls it makes, in order.\<close>

datatype 'h event =
    ClientQuery string
  | CreateHmac
  | SafeCompare
  | HandlerCall 'h string string "byte list"

text \<open>Truthiness of a value of type \<open>string | undefined\<close>.\<close>

definition truthyStr :: "string option \<Rightarrow> bool" where
  "truthyStr v = (case v of None \<Rightarrow> False | Some s \<Rightarrow> s \<noteq> [])"

text \<open>A value of type \<open>string | undefined\<close> written into a template or cast to \<open>string\<close>.\<close>

definition strOf :: "string option \<Rightarrow> string" where
  "strOf v = (case v of None \<Rightarrow> ''undefined'' | Some s \<Rightarrow> s)"

text \<open>
  \<open>Boolean(result.data && result.data[m] && result.data[m].webhookSubscription)\<close>, which
  \<open>isSuccess\<close> writes out for each of the four mutation names \<open>m\<close>.
\<close>

definition hasWebhookSubscription :: "jsval \<Rightarrow> string \<Rightarrow> error + bool" where
  "hasWebhookSubscription res m =
     (case getProp res ''data'' of
        Inl e \<Rightarrow> Inl e
      | Inr d \<Rightarrow>
          if \<not> truthy d then Inr False
          else (case getProp d m of
                  Inl e \<Rightarrow> Inl e
                | Inr s \<Rightarrow>
                    if \<not> truthy s then Inr False
                    else (case getProp s ''webhookSubscription'' of
                            Inl e \<Rightarrow> Inl e
                          | Inr w \<Rightarrow> Inr (truthy w))))"

definition isSuccess :: "jsval \<Rightarrow> DeliveryMethod \<Rightarrow> string option \<Rightarrow> error + bool" where
  "isSuccess res delivery webhookId =
     (case delivery of
        Http \<Rightarrow>
          if truthyStr webhookId then hasWebhookSubscription res ''webhookSubscriptionUpdate''
          else hasWebhookSubscription res ''webhookSubscriptionCreate''
      | EventBridge \<Rightarrow>
          if truthyStr webhookId
          then hasWebhookSubscription res ''eventBridgeWebhookSubscriptionUpdate''
          else hasWebhookSubscription res ''eventBridgeWebhookSubscriptionCreate'')"

definition nl :: string where
  "nl = [CHR 0x0A]"

definition buildCheckQuery :: "string \<Rightarrow> string" where
  "buildCheckQuery topic' =
     ''{'' @ nl @
     ''    webhookSubscriptions(first: 1, topics: '' @ topic' @ '') {'' @ nl @
     ''      edges {'' @ nl @
     ''        node {'' @ nl @
     ''          id'' @ nl @
     ''          callbackUrl'' @ nl @
     ''        }'' @ nl @
     ''      }'' @ nl @
     ''    }'' @ nl @
     ''  }''"

definition buildQuery :: "string \<Rightarrow> string \<Rightarrow> DeliveryMethod \<Rightarrow> string option \<Rightarrow> string" where
  \<open>buildQuery topic' address delivery webhookId =
     (let identifier =
            (if truthyStr webhookId then ''id: "'' @ strOf webhookId @ ''"''
             else ''topic: '' @ topic');
          mutationName =
            (case delivery of
               Http \<Rightarrow>
                 if truthyStr webhookId then ''webhookSubscriptionUpdate''
                 else ''webhookSubscriptionCreate''
             | EventBridge \<Rightarrow>
                 if truthyStr webhookId then ''eventBridgeWebhookSubscriptionUpdate''
                 else ''eventBridgeWebhookSubscriptionCreate'');
          webhookSubscriptionArgs =
            (case delivery of
               Http \<Rightarrow> ''{callbackUrl: "'' @ address @ ''"}''
             | EventBridge \<Rightarrow> ''{arn: "'' @ address @ ''"}'')
      in nl @
         ''    mutation webhookSubscription {'' @ nl @
         ''      '' @ mutationName @ ''('' @ identifier @ '', webhookSubscription: '' @
                     webhookSubscriptionArgs @ '') {'' @ nl @
         ''        userErrors {'' @ nl @
         ''          field'' @ nl @
         ''          message'' @ nl @
         ''        }'' @ nl @
         ''        webhookSubscription {'' @ nl @
         ''          id'' @ nl @
         ''        }'' @ nl @
         ''      }'' @ nl @
         ''    }'' @ nl @
         ''  '')\<close>

text \<open>
  \<open>register\<close>. The registry \<open>this.webhookRegistry\<close> is passed in and returned; the
  result is the new registry, the queries sent to the transport, and either the exception
  that rejects the promise or the \<open>RegisterReturn\<close>.
\<close>

definition register ::
  "(string \<Rightarrow> string \<Rightarrow> transport) \<Rightarrow> Context \<Rightarrow> 'h WebhookRegistryEntry list \<Rightarrow>
   'h RegisterOptions \<Rightarrow>
   'h WebhookRegistryEntry list \<times> 'h event list \<times> (error + RegisterReturn)" where
  "register GraphqlClient ctx webhookRegistry options =
     (let client = GraphqlClient (shop options) (accessToken options);
          delivery = (case deliveryMethod options of None \<Rightarrow> Http | Some m \<Rightarrow> m);
          address = ''https://'' @ HOST_NAME ctx @ path options;
          checkQuery = buildCheckQuery (topic options);
          registered =
            filter (\<lambda>item. topic item \<noteq> topic options) webhookRegistry @
            [\<lparr>path = path options, topic = topic options,
              webhookHandler = webhookHandler options\<rparr>]
      in case query_check client checkQuery of
           Inl e \<Rightarrow> (webhookRegistry, [ClientQuery checkQuery], Inl e)
         | Inr edges \<Rightarrow>
             (let webhookId = (case edges of [] \<Rightarrow> None | edge # _ \<Rightarrow> Some (node_id edge));
                  mustRegister =
                    (case edges of [] \<Rightarrow> True | edge # _ \<Rightarrow> node_callbackUrl edge \<noteq> address)
              in if mustRegister then
                   (let query = buildQuery (topic options) address delivery webhookId
                    in case query_any client query of
                         Inl e \<Rightarrow>
                           (webhookRegistry, [ClientQuery checkQuery, ClientQuery query], Inl e)
                       | Inr body \<Rightarrow>
                           (case isSuccess body delivery webhookId of
                              Inl e \<Rightarrow>
                                (webhookRegistry, [ClientQuery checkQuery, ClientQuery query],
                                 Inl e)
                            | Inr ok \<Rightarrow>
                                (if ok then registered else webhookRegistry,
                                 [ClientQuery checkQuery, ClientQuery query],
                                 Inr \<lparr>success = ok, result = body\<rparr>)))
                 else (registered, [ClientQuery checkQuery],
                       Inr \<lparr>success = True, result = JObj []\<rparr>)))"

text \<open>
  The loop of \<open>process\<close> over the headers (the own properties of the \<open>headers\<close> object,
  in their order, each with its value): the three variables \<open>hmac\<close>, \<open>topic\<close> and
  \<open>domain\<close> start undefined.
\<close>

fun read_headers ::
  "ShopifyHeader \<Rightarrow> (string \<times> string) list \<Rightarrow>
   string option \<times> string option \<times> string option \<Rightarrow>
   string option \<times> string option \<times> string option" where
  "read_headers H [] vars = vars"
| "read_headers H ((header, v) # rest) (hmac, topic', domain) =
     read_headers H rest
       (if header = [] then (hmac, topic', domain)
        else if toLowerCase header = toLowerCase (Hmac H) then (Some v, topic', domain)
        else if toLowerCase header = toLowerCase (Topic H) then (hmac, Some v, domain)
        else if toLowerCase header = toLowerCase (Domain' H) then (hmac, topic', Some v)
        else (hmac, topic', domain))"

definition missingHeaders ::
  "ShopifyHeader \<Rightarrow> string option \<times> string option \<times> string option \<Rightarrow> string list" where
  "missingHeaders H vars =
     (case vars of (hmac, topic', domain) \<Rightarrow>
        (if \<not> truthyStr hmac then [Hmac H] else []) @
        (if \<not> truthyStr topic' then [Topic H] else []) @
        (if \<not> truthyStr domain then [Domain' H] else []))"

definition missingMessage :: "string list \<Rightarrow> string" where
  "missingMessage missing =
     ''Missing one or more of the required HTTP headers to process webhooks: ['' @
     join '', '' missing @ '']''"

text \<open>
  Modelled from the spec: \<open>ShopifyUtilities.safeCompare\<close> is declared in \<open>utils\<close>,
  outside this file. It "returns a boolean" that tells whether the two strings are equal;
  its running time is not modelled.
\<close>

definition safeCompare :: "string \<Rightarrow> string \<Rightarrow> bool" where
  "safeCompare a b = (a = b)"

definition generatedHash :: "Context \<Rightarrow> byte list \<Rightarrow> string" where
  "generatedHash ctx body =
     createHmac_sha256_base64 (API_SECRET_KEY ctx) (Buffer_toString_utf8 body)"

text \<open>
  \<open>process\<close>: the calls it makes, and either the exception thrown or the
  \<open>ProcessReturn\<close>. When the upper case of the topic has a code unit above 255, no entry
  of the registry has it as its topic and \<open>find\<close> returns \<open>undefined\<close>.
\<close>

definition process ::
  "Context \<Rightarrow> ShopifyHeader \<Rightarrow> 'h WebhookRegistryEntry list \<Rightarrow> (string \<times> string) list \<Rightarrow>
   byte list \<Rightarrow> 'h event list \<times> (error + ProcessReturn)" where
  "process ctx H webhookRegistry hdrs body =
     (case read_headers H hdrs (None, None, None) of (hmac, topic', domain) \<Rightarrow>
        if missingHeaders H (hmac, topic', domain) \<noteq> [] then
          ([], Inl (InvalidWebhookError
                      (missingMessage (missingHeaders H (hmac, topic', domain)))))
        else if safeCompare (generatedHash ctx body) (strOf hmac) then
          (case map_option replace_slash (toUpperCase (strOf topic')) of
             None \<Rightarrow>
               ([CreateHmac, SafeCompare], Inr \<lparr>statusCode = Forbidden, headers = []\<rparr>)
           | Some graphqlTopic \<Rightarrow>
               (case find (\<lambda>entry. topic entry = graphqlTopic) webhookRegistry of
                  Some webhookEntry \<Rightarrow>
                    ([CreateHmac, SafeCompare,
                      HandlerCall (webhookHandler webhookEntry) graphqlTopic (strOf domain)
                        body],
                     Inr \<lparr>statusCode = Ok, headers = []\<rparr>)
                | None \<Rightarrow>
                    ([CreateHmac, SafeCompare],
                     Inr \<lparr>statusCode = Forbidden, headers = []\<rparr>)))
        else ([CreateHmac, SafeCompare], Inr \<lparr>statusCode = Forbidden, headers = []\<rparr>))"

text \<open>\<open>isWebhookPath\<close>, with the registry passed in and returned.\<close>

definition isWebhookPath ::
  "'h WebhookRegistryEntry list \<Rightarrow> string \<Rightarrow> 'h WebhookRegistryEntry list \<times> bool" where
  "isWebhookPath webhookRegistry p =
     (webhookRegistry, find (\<lambda>entry. path entry = p) webhookRegistry \<noteq> None)"


section \<open>Definitions for the statements\<close>

text \<open>A sequence of \<open>register\<close> calls, each with its own transport and options.\<close>

fun run_registers ::
  "Context \<Rightarrow> 'h WebhookRegistryEntry list \<Rightarrow>
   ((string \<Rightarrow> string \<Rightarrow> transport) \<times> 'h RegisterOptions) list \<Rightarrow>
   'h WebhookRegistryEntry list" where
  "run_registers ctx reg [] = reg"
| "run_registers ctx reg ((G, options) # calls) =
     run_registers ctx (fst (register G ctx reg options)) calls"

text \<open>
  The words of the specification on the upsert mutation: the mutation name and the
  argument that carries the address, for each delivery mode, and what it means that a
  response contains the node \<open><mutationName>.webhookSubscription\<close>.
\<close>

definition spec_mutationName :: "DeliveryMethod \<Rightarrow> bool \<Rightarrow> string" where
  "spec_mutationName delivery hasIdentifier =
     (case (delivery, hasIdentifier) of
        (Http, False) \<Rightarrow> ''webhookSubscriptionCreate''
      | (Http, True) \<Rightarrow> ''webhookSubscriptionUpdate''
      | (EventBridge, False) \<Rightarrow> ''eventBridgeWebhookSubscriptionCreate''
      | (EventBridge, True) \<Rightarrow> ''eventBridgeWebhookSubscriptionUpdate'')"

definition spec_addressArgument :: "DeliveryMethod \<Rightarrow> string" where
  "spec_addressArgument delivery =
     (case delivery of Http \<Rightarrow> ''callbackUrl'' | EventBridge \<Rightarrow> ''arn'')"

definition spec_hasNode :: "jsval \<Rightarrow> string \<Rightarrow> bool" where
  "spec_hasNode v k =
     (case v of
        JObj kvs \<Rightarrow> (case map_of kvs k of None \<Rightarrow> False | Some w \<Rightarrow> truthy w)
      | _ \<Rightarrow> False)"

definition spec_node :: "jsval \<Rightarrow> string \<Rightarrow> jsval" where
  "spec_node v k =
     (case v of
        JObj kvs \<Rightarrow> (case map_of kvs k of None \<Rightarrow> JUndefined | Some w \<Rightarrow> w)
      | _ \<Rightarrow> JUndefined)"

definition spec_containsSubscription :: "jsval \<Rightarrow> string \<Rightarrow> bool" where
  "spec_containsSubscription res mutationName =
     (spec_hasNode res ''data'' \<and>
      spec_hasNode (spec_node res ''data'') mutationName \<and>
      spec_hasNode (spec_node (spec_node res ''data'') mutationName) ''webhookSubscription'')"

text \<open>The text that \<open>buildQuery\<close> returns, with its four holes.\<close>

definition mutationText :: "string \<Rightarrow> string \<Rightarrow> string \<Rightarrow> string \<Rightarrow> string" where
  \<open>mutationText mutationName identifier argument address =
     nl @
     ''    mutation webhookSubscription {'' @ nl @
     ''      '' @ mutationName @ ''('' @ identifier @ '', webhookSubscription: {'' @
                 argument @ '': "'' @ address @ ''"}) {'' @ nl @
     ''        userErrors {'' @ nl @
     ''          field'' @ nl @
     ''          message'' @ nl @
     ''        }'' @ nl @
     ''        webhookSubscription {'' @ nl @
     ''          id'' @ nl @
     ''        }'' @ nl @
     ''      }'' @ nl @
     ''    }'' @ nl @
     ''  ''\<close>

text \<open>
  A header is absent when no property name of \<open>headers\<close> equals its name up to case.
  A message names a header when the header's name occurs in it.
\<close>

definition absent :: "string \<Rightarrow> (string \<times> string) list \<Rightarrow> bool" where
  "absent name hdrs =
     (toLowerCase name \<notin> set (map (\<lambda>(header, v). toLowerCase header) hdrs))"

definition names :: "string \<Rightarrow> string \<Rightarrow> bool" where
  "names msg name = (\<exists>before after. msg = before @ name @ after)"

text \<open>
  The signature of the specification, \<open>base64(HMAC-SHA256(secret, bytes))\<close>, over a given
  sequence of bytes.
\<close>

definition spec_signature :: "string \<Rightarrow> nat list \<Rightarrow> string" where
  "spec_signature secret bytes =
     base64 (hmac_sha256 (utf8_encode (string_code_units secret)) bytes)"

text \<open>Well-formed UTF-8 (the Unicode Standard, table 3-7).\<close>

definition continuation :: "nat \<Rightarrow> bool" where
  "continuation c = (0x80 \<le> c \<and> c \<le> 0xBF)"

fun utf8_wellformed :: "nat list \<Rightarrow> bool" where
  "utf8_wellformed [] = True"
| "utf8_wellformed (b # bs) =
     (if b \<le> 0x7F then utf8_wellformed bs
      else if 0xC2 \<le> b \<and> b \<le> 0xDF then
        (case bs of
           c1 # r \<Rightarrow> continuation c1 \<and> utf8_wellformed r
         | _ \<Rightarrow> False)
      else if 0xE0 \<le> b \<and> b \<le> 0xEF then
        (case bs of
           c1 # c2 # r \<Rightarrow>
             (if b = 0xE0 then 0xA0 else 0x80) \<le> c1 \<and>
             c1 \<le> (if b = 0xED then 0x9F else 0xBF) \<and>
             continuation c2 \<and> utf8_wellformed r
         | _ \<Rightarrow> False)
      else if 0xF0 \<le> b \<and> b \<le> 0xF4 then
        (case bs of
           c1 # c2 # c3 # r \<Rightarrow>
             (if b = 0xF0 then 0x90 else 0x80) \<le> c1 \<and>
             c1 \<le> (if b = 0xF4 then 0x8F else 0xBF) \<and>
             continuation c2 \<and> continuation c3 \<and> utf8_wellformed r
         | _ \<Rightarrow> False)
      else False)"

text \<open>
  Concrete inputs: a configuration, the header names that the platform sends, the body
  \<open>{"id":1}\<close>, register options, and transports that answer every query the same way.
\<close>

definition exampleContext :: Context where
  "exampleContext = \<lparr>HOST_NAME = ''host'', API_SECRET_KEY = ''hush''\<rparr>"

definition shopifyHeader :: ShopifyHeader where
  "shopifyHeader =
     \<lparr>Hmac = ''X-Shopify-Hmac-Sha256'', Topic = ''X-Shopify-Topic'',
      Domain' = ''X-Shopify-Shop-Domain''\<rparr>"

definition exampleBody :: "byte list" where
  \<open>exampleBody = map (\<lambda>c. of_nat (of_char c)) ''{"id":1}''\<close>

definition exampleOptions :: "string \<Rightarrow> 'h \<Rightarrow> 'h RegisterOptions" where
  "exampleOptions topic' handler =
     \<lparr>path = ''/cb'', topic = topic', webhookHandler = handler,
      shop = ''shop.example.com'', accessToken = ''token'', deliveryMethod = None\<rparr>"

definition exampleHeaders :: "string \<Rightarrow> string \<Rightarrow> string \<Rightarrow> (string \<times> string) list" where
  "exampleHeaders signature topic' domain =
     [(''X-Shopify-Hmac-Sha256'', signature), (''X-Shopify-Topic'', topic'),
      (''X-Shopify-Shop-Domain'', domain)]"

definition createdBody :: jsval where
  "createdBody =
     JObj [(''data'', JObj [(''webhookSubscriptionCreate'',
       JObj [(''userErrors'', JArr []),
             (''webhookSubscription'',
              JObj [(''id'', JStr ''gid://shopify/WebhookSubscription/1'')])])])]"

definition rejectedBody :: jsval where
  "rejectedBody =
     JObj [(''data'', JObj [(''webhookSubscriptionCreate'',
       JObj [(''userErrors'', JArr [JObj [(''message'', JStr ''Address is invalid'')]]),
             (''webhookSubscription'', JNull)])])]"

definition answeringClient ::
  "error + WebhookCheckResponse \<Rightarrow> error + jsval \<Rightarrow> string \<Rightarrow> string \<Rightarrow> transport" where
  "answeringClient checkAnswer mutationAnswer shop' token =
     \<lparr>query_check = (\<lambda>q. checkAnswer), query_any = (\<lambda>q. mutationAnswer)\<rparr>"


section \<open>The registry store\<close>

lemma register_cases:
  "fst (register G ctx reg options) = reg \<or>
   fst (register G ctx reg options) = filter (\<lambda>item. topic item \<noteq> topic options) reg @
            [\<lparr>path = path options, topic = topic options,
              webhookHandler = webhookHandler options\<rparr>]"
  by (simp add: register_def Let_def split: sum.split list.split)

lemma distinct_registered:
  "distinct (map topic reg) \<Longrightarrow>
   distinct (map topic (filter (\<lambda>item. topic item \<noteq> t) reg @
            [\<lparr>path = p, topic = t, webhookHandler = h\<rparr>]))"
  by (auto simp: distinct_map_filter)

lemma register_distinct:
  "distinct (map topic reg) \<Longrightarrow> distinct (map topic (fst (register G ctx reg options)))"
  using register_cases [of G ctx reg options] distinct_registered [of reg "topic options"]
  by auto

lemma run_registers_distinct:
  "distinct (map topic reg) \<Longrightarrow> distinct (map topic (run_registers ctx reg calls))"
  by (induction calls arbitrary: reg) (auto simp: register_distinct)

lemma register_success_store:
  assumes "register G ctx reg options = (reg', ev, Inr r)" and "success r"
  shows "reg' = filter (\<lambda>item. topic item \<noteq> topic options) reg @
            [\<lparr>path = path options, topic = topic options,
              webhookHandler = webhookHandler options\<rparr>]"
  using assms
  by (auto simp: register_def Let_def split: sum.splits list.splits if_splits)

lemma filter_registered:
  "filter (\<lambda>e. topic e = t) (filter (\<lambda>item. topic item \<noteq> t) reg @
            [\<lparr>path = p, topic = t, webhookHandler = h\<rparr>]) =
   [\<lparr>path = p, topic = t, webhookHandler = h\<rparr>]"
  by (induction reg) auto

lemma find_registered:
  "find (\<lambda>entry. topic entry = t)
     (filter (\<lambda>item. topic item \<noteq> t) reg @ [\<lparr>path = p, topic = t, webhookHandler = h\<rparr>]) =
   Some \<lparr>path = p, topic = t, webhookHandler = h\<rparr>"
  by (induction reg) auto

lemma register_check_fails:
  "query_check (G (shop options) (accessToken options)) (buildCheckQuery (topic options)) = Inl e \<Longrightarrow>
   register G ctx reg options = (reg, [ClientQuery (buildCheckQuery (topic options))], Inl e)"
  by (simp add: register_def Let_def)

lemma register_mutation_fails:
  "query_check (G (shop options) (accessToken options)) (buildCheckQuery (topic options)) =
     Inr edges \<Longrightarrow>
   (case edges of [] \<Rightarrow> True
    | edge # _ \<Rightarrow> node_callbackUrl edge \<noteq> ''https://'' @ HOST_NAME ctx @ path options) \<Longrightarrow>
   query_any (G (shop options) (accessToken options))
     (buildQuery (topic options) (''https://'' @ HOST_NAME ctx @ path options)
        (case deliveryMethod options of None \<Rightarrow> Http | Some m \<Rightarrow> m)
        (case edges of [] \<Rightarrow> None | edge # _ \<Rightarrow> Some (node_id edge))) = Inl e \<Longrightarrow>
   register G ctx reg options =
     (reg,
      [ClientQuery (buildCheckQuery (topic options)),
       ClientQuery
         (buildQuery (topic options) (''https://'' @ HOST_NAME ctx @ path options)
            (case deliveryMethod options of None \<Rightarrow> Http | Some m \<Rightarrow> m)
            (case edges of [] \<Rightarrow> None | edge # _ \<Rightarrow> Some (node_id edge)))],
      Inl e)"
  by (cases edges) (simp_all add: register_def Let_def)

lemma register_mutation_answered:
  "query_check (G (shop options) (accessToken options)) (buildCheckQuery (topic options)) =
     Inr edges \<Longrightarrow>
   (case edges of [] \<Rightarrow> True
    | edge # _ \<Rightarrow> node_callbackUrl edge \<noteq> ''https://'' @ HOST_NAME ctx @ path options) \<Longrightarrow>
   query_any (G (shop options) (accessToken options))
     (buildQuery (topic options) (''https://'' @ HOST_NAME ctx @ path options)
        (case deliveryMethod options of None \<Rightarrow> Http | Some m \<Rightarrow> m)
        (case edges of [] \<Rightarrow> None | edge # _ \<Rightarrow> Some (node_id edge))) = Inr body \<Longrightarrow>
   register G ctx reg options =
     (case isSuccess body (case deliveryMethod options of None \<Rightarrow> Http | Some m \<Rightarrow> m)
             (case edges of [] \<Rightarrow> None | edge # _ \<Rightarrow> Some (node_id edge)) of
        Inl e \<Rightarrow> reg
      | Inr ok \<Rightarrow>
          if ok then
            filter (\<lambda>item. topic item \<noteq> topic options) reg @
            [\<lparr>path = path options, topic = topic options,
              webhookHandler = webhookHandler options\<rparr>]
          else reg,
      [ClientQuery (buildCheckQuery (topic options)),
       ClientQuery
         (buildQuery (topic options) (''https://'' @ HOST_NAME ctx @ path options)
            (case deliveryMethod options of None \<Rightarrow> Http | Some m \<Rightarrow> m)
            (case edges of [] \<Rightarrow> None | edge # _ \<Rightarrow> Some (node_id edge)))],
      case isSuccess body (case deliveryMethod options of None \<Rightarrow> Http | Some m \<Rightarrow> m)
             (case edges of [] \<Rightarrow> None | edge # _ \<Rightarrow> Some (node_id edge)) of
        Inl e \<Rightarrow> Inl e
      | Inr ok \<Rightarrow> Inr \<lparr>success = ok, result = body\<rparr>)"
  by (cases edges) (simp_all add: register_def Let_def split: sum.splits)

lemma register_changed_success:
  "register G ctx reg options = (reg', ev, out) \<Longrightarrow> reg' \<noteq> reg \<Longrightarrow>
   \<exists>r. out = Inr r \<and> success r"
  unfolding register_def Let_def
  by (simp split: sum.splits if_splits list.splits) auto

section \<open>The upsert mutation and its success node\<close>

lemma getProp_truthy:
  "getProp v k = Inr w \<Longrightarrow> truthy w = spec_hasNode v k"
  by (cases v) (auto simp: spec_hasNode_def split: option.splits)

lemma getProp_node:
  "getProp v k = Inr w \<Longrightarrow> w = spec_node v k"
  by (cases v) (auto simp: spec_node_def split: option.splits)

lemma getProp_Inl: "getProp v k = Inl e \<Longrightarrow> \<not> spec_hasNode v k"
  by (cases v) (auto simp: spec_hasNode_def)

lemma hasWebhookSubscription_spec:
  "(hasWebhookSubscription res m = Inr True) = spec_containsSubscription res m"
  unfolding hasWebhookSubscription_def spec_containsSubscription_def
  by (auto split: sum.splits dest: getProp_truthy getProp_node getProp_Inl)

lemma isSuccess_spec:
  "(isSuccess res delivery webhookId = Inr True) =
     spec_containsSubscription res (spec_mutationName delivery (truthyStr webhookId))"
  by (cases delivery) (simp_all add: isSuccess_def spec_mutationName_def hasWebhookSubscription_spec)

lemma buildQuery_spec:
  \<open>buildQuery topic' address delivery webhookId =
     mutationText (spec_mutationName delivery (truthyStr webhookId))
       (if truthyStr webhookId then ''id: "'' @ strOf webhookId @ ''"'' else ''topic: '' @ topic')
       (spec_addressArgument delivery) address\<close>
  by (cases delivery)
     (simp_all add: buildQuery_def mutationText_def spec_mutationName_def spec_addressArgument_def)

section \<open>Reading the headers and dispatching\<close>

lemma read_headers_absent_hmac:
  "absent (Hmac H) hdrs \<Longrightarrow> fst (read_headers H hdrs (hmac, t, d)) = hmac"
  by (induction hdrs arbitrary: hmac t d) (auto simp: absent_def)

lemma read_headers_absent_topic:
  "absent (Topic H) hdrs \<Longrightarrow> fst (snd (read_headers H hdrs (hmac, t, d))) = t"
  by (induction hdrs arbitrary: hmac t d) (auto simp: absent_def)

lemma read_headers_absent_domain:
  "absent (Domain' H) hdrs \<Longrightarrow> snd (snd (read_headers H hdrs (hmac, t, d))) = d"
  by (induction hdrs arbitrary: hmac t d) (auto simp: absent_def)

lemma join_names: "name \<in> set xs \<Longrightarrow> \<exists>before after. join sep xs = before @ name @ after"
proof (induction sep xs rule: join.induct)
  case (1 sep)
  then show ?case by simp
next
  case (2 sep x)
  then have "join sep [x] = [] @ name @ []" by simp
  then show ?case by blast
next
  case (3 sep x y r)
  show ?case
  proof (cases "name = x")
    case True
    then have "join sep (x # y # r) = [] @ name @ (sep @ join sep (y # r))" by simp
    then show ?thesis by blast
  next
    case False
    with 3 obtain b a where "join sep (y # r) = b @ name @ a" by auto
    then have "join sep (x # y # r) = (x @ sep @ b) @ name @ a" by simp
    then show ?thesis by blast
  qed
qed

lemma missingMessage_names: "name \<in> set xs \<Longrightarrow> names (missingMessage xs) name"
proof -
  assume "name \<in> set xs"
  then obtain b a where "join '', '' xs = b @ name @ a" using join_names by blast
  then have "missingMessage xs =
    (''Missing one or more of the required HTTP headers to process webhooks: ['' @ b) @ name @ (a @ '']'')"
    by (simp add: missingMessage_def)
  then show ?thesis unfolding names_def by blast
qed

lemma process_missing:
  "missingHeaders H (read_headers H hdrs (None, None, None)) \<noteq> [] \<Longrightarrow>
   process ctx H reg hdrs body =
     ([], Inl (InvalidWebhookError
                 (missingMessage (missingHeaders H (read_headers H hdrs (None, None, None))))))"
  by (cases "read_headers H hdrs (None, None, None)") (auto simp: process_def)

lemma process_mismatch:
  "read_headers H hdrs (None, None, None) = (Some s, Some t, Some d) \<Longrightarrow>
   s \<noteq> [] \<Longrightarrow> t \<noteq> [] \<Longrightarrow> d \<noteq> [] \<Longrightarrow> s \<noteq> generatedHash ctx body \<Longrightarrow>
   process ctx H reg hdrs body =
     ([CreateHmac, SafeCompare], Inr \<lparr>statusCode = Forbidden, headers = []\<rparr>)"
  by (auto simp: process_def missingHeaders_def truthyStr_def safeCompare_def strOf_def)

lemma process_unknown_topic:
  assumes "read_headers H hdrs (None, None, None) = (Some s, Some t, Some d)"
    and "s \<noteq> []" and "t \<noteq> []" and "d \<noteq> []"
    and unknown: "\<forall>entry\<in>set reg. Some (topic entry) \<noteq> map_option replace_slash (toUpperCase t)"
  shows "process ctx H reg hdrs body =
     ([CreateHmac, SafeCompare], Inr \<lparr>statusCode = Forbidden, headers = []\<rparr>)"
proof (cases "toUpperCase t")
  case None
  with assms show ?thesis
    by (simp add: process_def missingHeaders_def truthyStr_def strOf_def)
next
  case (Some u)
  with unknown have "find (\<lambda>entry. topic entry = replace_slash u) reg = None"
    by (auto simp: find_None_iff)
  with assms Some show ?thesis
    by (simp add: process_def missingHeaders_def truthyStr_def strOf_def)
qed

lemma process_dispatch:
  "read_headers H hdrs (None, None, None) = (Some s, Some t, Some d) \<Longrightarrow>
   s \<noteq> [] \<Longrightarrow> t \<noteq> [] \<Longrightarrow> d \<noteq> [] \<Longrightarrow> s = generatedHash ctx body \<Longrightarrow>
   map_option replace_slash (toUpperCase t) = Some graphqlTopic \<Longrightarrow>
   find (\<lambda>entry. topic entry = graphqlTopic) reg = Some e \<Longrightarrow>
   process ctx H reg hdrs body =
     ([CreateHmac, SafeCompare, HandlerCall (webhookHandler e) graphqlTopic d body],
      Inr \<lparr>statusCode = Ok, headers = []\<rparr>)"
  by (cases "toUpperCase t")
    (simp_all add: process_def missingHeaders_def truthyStr_def safeCompare_def strOf_def)

section \<open>Decoding and encoding well-formed UTF-8\<close>

lemma split_byte:
  fixes x y :: nat
  assumes "y < 64"
  shows "(x * 64 + y) div 64 = x" and "(x * 64 + y) mod 64 = y"
  using assms by simp_all

lemma split_byte2:
  fixes x y z :: nat
  assumes "y < 64" "z < 64"
  shows "((x * 64 + y) * 64 + z) div 4096 = x"
proof -
  have "((x * 64 + y) * 64 + z) div 4096 = (((x * 64 + y) * 64 + z) div 64) div 64"
    by (simp add: div_mult2_eq)
  then show ?thesis using assms by simp
qed

lemma split_byte3:
  fixes x y z w :: nat
  assumes "y < 64" "z < 64" "w < 64"
  shows "(((x * 64 + y) * 64 + z) * 64 + w) div 262144 = x"
proof -
  have "(((x * 64 + y) * 64 + z) * 64 + w) div 262144 =
        ((((x * 64 + y) * 64 + z) * 64 + w) div 64) div 4096"
    by (simp add: div_mult2_eq)
  then show ?thesis using assms split_byte2 [of y z x] by simp
qed

lemma enc2:
  assumes "2 \<le> x" "x < 32" "y < 64"
  shows "utf8_encode_cp (x * 64 + y) = [192 + x, 128 + y]"
proof -
  have lo: "\<not> x * 64 + y < 128" using assms by simp
  have hi: "x * 64 + y < 2048" using assms by simp
  show ?thesis
    unfolding utf8_encode_cp_def
    using lo hi split_byte [OF assms(3), of x] by simp
qed

lemma enc3:
  assumes "x < 16" "y < 64" "z < 64" "x = 0 \<longrightarrow> 32 \<le> y" "x = 13 \<longrightarrow> y < 32"
  shows "utf8_encode_cp ((x * 64 + y) * 64 + z) = [224 + x, 128 + y, 128 + z]"
proof -
  let ?u = "x * 64 + y"
  let ?cp = "?u * 64 + z"
  have u1: "32 \<le> ?u" using assms(4) by (cases "x = 0") simp_all
  have u2: "?u < 1024" using assms(1,2) by simp
  have u3: "?u < 864 \<or> 896 \<le> ?u"
  proof (cases "x < 13")
    case True
    then have "x * 64 \<le> 12 * 64" by simp
    then show ?thesis using assms(2) by simp
  next
    case False
    show ?thesis
    proof (cases "x = 13")
      case True
      then show ?thesis using assms(5) by simp
    next
      case False
      with \<open>\<not> x < 13\<close> have "14 * 64 \<le> x * 64" by simp
      then show ?thesis by simp
    qed
  qed
  have lo: "\<not> ?cp < 128" "\<not> ?cp < 2048" using u1 by simp_all
  have sur: "\<not> (55296 \<le> ?cp \<and> ?cp \<le> 57343)" using u3 assms(3) by auto
  have hi: "?cp < 65536" using u2 assms(3) by simp
  have d1: "?cp div 64 = ?u" "?cp mod 64 = z" using split_byte [OF assms(3), of ?u] by simp_all
  have d2: "?u mod 64 = y" using split_byte [OF assms(2), of x] by simp
  have d3: "?cp div 4096 = x" using split_byte2 [OF assms(2,3), of x] by simp
  show ?thesis
    unfolding utf8_encode_cp_def
    using lo sur hi by (simp only: d1 d2 d3 if_False if_True)
qed

lemma enc4:
  assumes "x < 5" "y < 64" "z < 64" "w < 64" "x = 0 \<longrightarrow> 16 \<le> y" "x = 4 \<longrightarrow> y < 16"
  shows "utf8_encode_cp (((x * 64 + y) * 64 + z) * 64 + w) =
           [240 + x, 128 + y, 128 + z, 128 + w]"
proof -
  let ?u = "x * 64 + y"
  let ?v = "?u * 64 + z"
  let ?cp = "?v * 64 + w"
  have u1: "16 \<le> ?u" using assms(5) by (cases "x = 0") simp_all
  then have v1: "1024 \<le> ?v" by simp
  then have lo: "\<not> ?cp < 128" "\<not> ?cp < 2048" "\<not> ?cp < 65536" "\<not> ?cp \<le> 57343" by simp_all
  have d1: "?cp div 64 = ?v" "?cp mod 64 = w" using split_byte [OF assms(4), of ?v] by simp_all
  have d2: "?v mod 64 = z" using split_byte [OF assms(3), of ?u] by simp
  have d3: "?cp div 4096 = ?u" using split_byte2 [OF assms(3,4), of ?u] by simp
  have d4: "?u mod 64 = y" using split_byte [OF assms(2), of x] by simp
  have d5: "?cp div 262144 = x" using split_byte3 [OF assms(2,3,4), of x] by simp
  show ?thesis
    unfolding utf8_encode_cp_def
    using lo by (simp only: d1 d2 d3 d4 d5 if_False if_True simp_thms)
qed

lemma lead_mod:
  fixes x :: nat
  shows "x < 32 \<Longrightarrow> (192 + x) mod 32 = x"
    and "x < 16 \<Longrightarrow> (224 + x) mod 16 = x"
    and "x < 8 \<Longrightarrow> (240 + x) mod 8 = x"
    and "x < 64 \<Longrightarrow> (128 + x) mod 64 = x"
proof -
  have "(192 + x) mod 32 = (6 * 32 + x) mod 32" by simp
  also have "\<dots> = x mod 32" by (rule mod_mult_self3)
  finally show "x < 32 \<Longrightarrow> (192 + x) mod 32 = x" by simp
  have "(224 + x) mod 16 = (14 * 16 + x) mod 16" by simp
  also have "\<dots> = x mod 16" by (rule mod_mult_self3)
  finally show "x < 16 \<Longrightarrow> (224 + x) mod 16 = x" by simp
  have "(240 + x) mod 8 = (30 * 8 + x) mod 8" by simp
  also have "\<dots> = x mod 8" by (rule mod_mult_self3)
  finally show "x < 8 \<Longrightarrow> (240 + x) mod 8 = x" by simp
  have "(128 + x) mod 64 = (2 * 64 + x) mod 64" by simp
  also have "\<dots> = x mod 64" by (rule mod_mult_self3)
  finally show "x < 64 \<Longrightarrow> (128 + x) mod 64 = x" by simp
qed

lemma continuation_split:
  assumes "continuation c"
  obtains y where "c = 128 + y" "y < 64"
proof
  show "c = 128 + (c - 128)" using assms by (simp add: continuation_def)
  show "c - 128 < 64" using assms by (auto simp: continuation_def)
qed

lemma utf8_encode_Cons: "utf8_encode (cp # cps) = utf8_encode_cp cp @ utf8_encode cps"
  by (simp add: utf8_encode_def)

lemma decode1:
  "b \<le> 127 \<Longrightarrow> utf8_decode 0 0 128 191 (b # r) = b # utf8_decode 0 0 128 191 r"
  by simp

lemma decode2:
  "x < 32 \<Longrightarrow> 2 \<le> x \<Longrightarrow> y < 64 \<Longrightarrow>
   utf8_decode 0 0 128 191 ((192 + x) # (128 + y) # r) = (x * 64 + y) # utf8_decode 0 0 128 191 r"
  by (simp add: lead_mod)

lemma decode3:
  "x < 16 \<Longrightarrow> y < 64 \<Longrightarrow> z < 64 \<Longrightarrow> x = 0 \<longrightarrow> 32 \<le> y \<Longrightarrow> x = 13 \<longrightarrow> y < 32 \<Longrightarrow>
   utf8_decode 0 0 128 191 ((224 + x) # (128 + y) # (128 + z) # r) =
     ((x * 64 + y) * 64 + z) # utf8_decode 0 0 128 191 r"
  by (auto simp: lead_mod)

lemma decode4:
  "x < 5 \<Longrightarrow> y < 64 \<Longrightarrow> z < 64 \<Longrightarrow> w < 64 \<Longrightarrow> x = 0 \<longrightarrow> 16 \<le> y \<Longrightarrow> x = 4 \<longrightarrow> y < 16 \<Longrightarrow>
   utf8_decode 0 0 128 191 ((240 + x) # (128 + y) # (128 + z) # (128 + w) # r) =
     (((x * 64 + y) * 64 + z) * 64 + w) # utf8_decode 0 0 128 191 r"
  by (auto simp: lead_mod)

lemma utf8_roundtrip:
  "utf8_wellformed bs \<Longrightarrow> utf8_encode (utf8_decode 0 0 128 191 bs) = bs"
proof (induction "length bs" arbitrary: bs rule: less_induct)
  case less
  show ?case
  proof (cases bs)
    case Nil
    then show ?thesis by (simp add: utf8_encode_def)
  next
    case (Cons b r0)
    consider (one) "b \<le> 127" | (two) "194 \<le> b" "b \<le> 223" | (three) "224 \<le> b" "b \<le> 239"
      | (four) "240 \<le> b" "b \<le> 244"
      using less.prems Cons by (auto split: if_splits)
    then show ?thesis
    proof cases
      case one
      then have "utf8_wellformed r0" using less.prems Cons by simp
      then have "utf8_encode (utf8_decode 0 0 128 191 r0) = r0"
        using less.hyps [of r0] Cons by simp
      then show ?thesis
        using one Cons by (simp add: utf8_encode_Cons utf8_encode_cp_def del: utf8_decode.simps add: decode1)
    next
      case two
      then obtain c1 r where r0: "r0 = c1 # r" and c1: "continuation c1" and wf: "utf8_wellformed r"
        using less.prems Cons by (auto split: list.splits if_splits)
      obtain y where y: "c1 = 128 + y" "y < 64" using c1 by (rule continuation_split)
      define x where "x = b - 192"
      have x: "b = 192 + x" "2 \<le> x" "x < 32" using two by (auto simp: x_def)
      have ih: "utf8_encode (utf8_decode 0 0 128 191 r) = r"
        using less.hyps [of r] Cons r0 wf by simp
      show ?thesis
        unfolding Cons r0 x(1) y(1)
        using decode2 [of x y r] enc2 [of x y] x y ih by (simp only: utf8_encode_Cons append.simps)
    next
      case three
      then obtain c1 c2 r where r0: "r0 = c1 # c2 # r"
        and c1: "(if b = 224 then 160 else 128) \<le> c1" "c1 \<le> (if b = 237 then 159 else 191)"
        and c2: "continuation c2" and wf: "utf8_wellformed r"
        using less.prems Cons by (auto split: list.splits if_splits)
      have "continuation c1" using c1 by (auto simp: continuation_def split: if_splits)
      then obtain y where y: "c1 = 128 + y" "y < 64" by (rule continuation_split)
      obtain z where z: "c2 = 128 + z" "z < 64" using c2 by (rule continuation_split)
      define x where "x = b - 224"
      have x: "b = 224 + x" "x < 16" using three by (auto simp: x_def)
      have e: "x = 0 \<longrightarrow> 32 \<le> y" "x = 13 \<longrightarrow> y < 32" using c1 x y by auto
      have ih: "utf8_encode (utf8_decode 0 0 128 191 r) = r"
        using less.hyps [of r] Cons r0 wf by simp
      show ?thesis
        unfolding Cons r0 x(1) y(1) z(1)
        using decode3 [of x y z r] enc3 [of x y z] x y z e ih
        by (simp only: utf8_encode_Cons append.simps)
    next
      case four
      then obtain c1 c2 c3 r where r0: "r0 = c1 # c2 # c3 # r"
        and c1: "(if b = 240 then 144 else 128) \<le> c1" "c1 \<le> (if b = 244 then 143 else 191)"
        and c2: "continuation c2" and c3: "continuation c3" and wf: "utf8_wellformed r"
        using less.prems Cons by (auto split: list.splits if_splits)
      have "continuation c1" using c1 by (auto simp: continuation_def split: if_splits)
      then obtain y where y: "c1 = 128 + y" "y < 64" by (rule continuation_split)
      obtain z where z: "c2 = 128 + z" "z < 64" using c2 by (rule continuation_split)
      obtain w where w: "c3 = 128 + w" "w < 64" using c3 by (rule continuation_split)
      define x where "x = b - 240"
      have x: "b = 240 + x" "x < 5" using four by (auto simp: x_def)
      have e: "x = 0 \<longrightarrow> 16 \<le> y" "x = 4 \<longrightarrow> y < 16" using c1 x y by auto
      have ih: "utf8_encode (utf8_decode 0 0 128 191 r) = r"
        using less.hyps [of r] Cons r0 wf by simp
      show ?thesis
        unfolding Cons r0 x(1) y(1) z(1) w(1)
        using decode4 [of x y z w r] enc4 [of x y z w] x y z w e ih
        by (simp only: utf8_encode_Cons append.simps)
    qed
  qed
qed

lemma Buffer_roundtrip:
  "utf8_wellformed (map unat body) \<Longrightarrow> utf8_encode (Buffer_toString_utf8 body) = map unat body"
  by (simp only: Buffer_toString_utf8_def utf8_roundtrip)

section \<open>The digest is never empty\<close>

lemma base64_nonempty: "xs \<noteq> [] \<Longrightarrow> base64 xs \<noteq> []"
  by (cases xs rule: base64.cases) simp_all

lemma digest_bytes_nonempty: "digest_bytes s \<noteq> []"
  by (cases s rule: digest_bytes.cases) (simp add: bytes_of32_def)

lemma hmac_sha256_nonempty: "hmac_sha256 key m \<noteq> []"
  by (simp add: hmac_sha256_def sha256_def Let_def digest_bytes_nonempty)

lemma spec_signature_nonempty: "spec_signature secret bytes \<noteq> []"
  by (simp add: spec_signature_def base64_nonempty hmac_sha256_nonempty)

lemma generatedHash_spec:
  "generatedHash ctx body =
     spec_signature (API_SECRET_KEY ctx) (utf8_encode (Buffer_toString_utf8 body))"
  by (simp add: generatedHash_def spec_signature_def createHmac_sha256_base64_def)

lemma generatedHash_nonempty: "generatedHash ctx body \<noteq> []"
  by (simp add: generatedHash_spec spec_signature_nonempty)

lemma isSuccess_Inl: "isSuccess res delivery webhookId = Inl e \<Longrightarrow> e = TypeError"
proof -
  have g: "\<And>v k e. getProp v k = Inl e \<Longrightarrow> e = TypeError"
    subgoal for v k e by (cases v) auto
    done
  have h: "\<And>m. hasWebhookSubscription res m = Inl e \<Longrightarrow> e = TypeError"
    unfolding hasWebhookSubscription_def
    by (auto split: sum.splits if_splits dest: g)
  assume "isSuccess res delivery webhookId = Inl e"
  then show ?thesis
    by (cases delivery) (auto simp: isSuccess_def split: if_splits dest: h)
qed

lemma isSuccess_not_contained:
  "\<not> spec_containsSubscription body (spec_mutationName delivery (truthyStr webhookId)) \<Longrightarrow>
   isSuccess body delivery webhookId = Inr False \<or> isSuccess body delivery webhookId = Inl TypeError"
proof (cases "isSuccess body delivery webhookId")
  case (Inl e)
  then show ?thesis using isSuccess_Inl by blast
next
  case (Inr b)
  assume "\<not> spec_containsSubscription body (spec_mutationName delivery (truthyStr webhookId))"
  then have "isSuccess body delivery webhookId \<noteq> Inr True" using isSuccess_spec by blast
  then show ?thesis using Inr by (cases b) simp_all
qed

lemma read_headers_three:
  assumes "Hmac H \<noteq> []" "Topic H \<noteq> []" "Domain' H \<noteq> []"
    and "distinct [toLowerCase (Hmac H), toLowerCase (Topic H), toLowerCase (Domain' H)]"
  shows "read_headers H [(Hmac H, s), (Topic H, t), (Domain' H, d)] (None, None, None) =
           (Some s, Some t, Some d)"
  using assms by auto

section \<open>Evaluating the hash\<close>

lemma replicate_numeral: "replicate (numeral n) x = x # replicate (pred_numeral n) x"
  by (simp add: numeral_eq_Suc)

lemma replicate_one: "replicate 1 x = [x]"
  by simp

lemma compress_ipad:
  "compress H0
     [94, 67, 69, 94, 54, 54, 54, 54, 54, 54, 54, 54, 54, 54, 54, 54, 54, 54, 54, 54, 54, 54,
      54, 54, 54, 54, 54, 54, 54, 54, 54, 54, 54, 54, 54, 54, 54, 54, 54, 54, 54, 54, 54, 54,
      54, 54, 54, 54, 54, 54, 54, 54, 54, 54, 54, 54, 54, 54, 54, 54, 54, 54, 54, 54] =
   (571185350, 3607144631, 1137766794, 375235380, 44129867, 1480392959, 1913898119, 229849062)"
  by (simp add: compress_def H0_def K256_def sched_def add32_def ssig0_def ssig1_def bsig0_def bsig1_def Ch_def Maj_def rotr_def shr_def Let_def)

lemma compress_opad:
  "compress H0
     [52, 41, 47, 52, 92, 92, 92, 92, 92, 92, 92, 92, 92, 92, 92, 92, 92, 92, 92, 92, 92, 92,
      92, 92, 92, 92, 92, 92, 92, 92, 92, 92, 92, 92, 92, 92, 92, 92, 92, 92, 92, 92, 92, 92,
      92, 92, 92, 92, 92, 92, 92, 92, 92, 92, 92, 92, 92, 92, 92, 92, 92, 92, 92, 92] =
   (1813164876, 2307346288, 907203296, 2864528302, 1072721759, 4208979805, 882290618, 1752467429)"
  by (simp add: compress_def H0_def K256_def sched_def add32_def ssig0_def ssig1_def bsig0_def bsig1_def Ch_def Maj_def rotr_def shr_def Let_def)

lemma compress_inner_id1:
  "compress (571185350, 3607144631, 1137766794, 375235380, 44129867, 1480392959, 1913898119, 229849062)
     [123, 34, 105, 100, 34, 58, 49, 125, 128, 0, 0, 0, 0, 0, 0, 0, 0, 0, 0, 0, 0, 0, 0, 0,
      0, 0, 0, 0, 0, 0, 0, 0, 0, 0, 0, 0, 0, 0, 0, 0, 0, 0, 0, 0, 0, 0, 0, 0, 0, 0, 0, 0, 0,
      0, 0, 0, 0, 0, 0, 0, 0, 0, 2, 64] =
   (1841064766, 1314761613, 3472992178, 377993195, 562480037, 2815423642, 143806313, 854311346)"
  by (simp add: compress_def H0_def K256_def sched_def add32_def ssig0_def ssig1_def bsig0_def bsig1_def Ch_def Maj_def rotr_def shr_def Let_def)

lemma length_inner_id1:
  "length
     [94, 67, 69, 94, 54, 54, 54, 54, 54, 54, 54, 54, 54, 54, 54, 54, 54, 54, 54, 54, 54, 54,
      54, 54, 54, 54, 54, 54, 54, 54, 54, 54, 54, 54, 54, 54, 54, 54, 54, 54, 54, 54, 54, 54,
      54, 54, 54, 54, 54, 54, 54, 54, 54, 54, 54, 54, 54, 54, 54, 54, 54, 54, 54, 54, 123, 34,
      105, 100, 34, 58, 49, 125] = 72"
  by simp

lemma pad_inner_id1:
  "pad
     [94, 67, 69, 94, 54, 54, 54, 54, 54, 54, 54, 54, 54, 54, 54, 54, 54, 54, 54, 54, 54, 54,
      54, 54, 54, 54, 54, 54, 54, 54, 54, 54, 54, 54, 54, 54, 54, 54, 54, 54, 54, 54, 54, 54,
      54, 54, 54, 54, 54, 54, 54, 54, 54, 54, 54, 54, 54, 54, 54, 54, 54, 54, 54, 54, 123, 34,
      105, 100, 34, 58, 49, 125] =
     [94, 67, 69, 94, 54, 54, 54, 54, 54, 54, 54, 54, 54, 54, 54, 54, 54, 54, 54, 54, 54, 54,
      54, 54, 54, 54, 54, 54, 54, 54, 54, 54, 54, 54, 54, 54, 54, 54, 54, 54, 54, 54, 54, 54,
      54, 54, 54, 54, 54, 54, 54, 54, 54, 54, 54, 54, 54, 54, 54, 54, 54, 54, 54, 54, 123, 34,
      105, 100, 34, 58, 49, 125, 128, 0, 0, 0, 0, 0, 0, 0, 0, 0, 0, 0, 0, 0, 0, 0, 0, 0, 0, 0,
      0, 0, 0, 0, 0, 0, 0, 0, 0, 0, 0, 0, 0, 0, 0, 0, 0, 0, 0, 0, 0, 0, 0, 0, 0, 0, 0, 0, 0,
      0, 0, 0, 0, 0, 2, 64]"
  unfolding pad_def length_inner_id1
  by (simp add: bytes_of32_def replicate_numeral replicate_one del: One_nat_def)

lemma sha256_inner_id1:
  "sha256
     [94, 67, 69, 94, 54, 54, 54, 54, 54, 54, 54, 54, 54, 54, 54, 54, 54, 54, 54, 54, 54, 54,
      54, 54, 54, 54, 54, 54, 54, 54, 54, 54, 54, 54, 54, 54, 54, 54, 54, 54, 54, 54, 54, 54,
      54, 54, 54, 54, 54, 54, 54, 54, 54, 54, 54, 54, 54, 54, 54, 54, 54, 54, 54, 54, 123, 34,
      105, 100, 34, 58, 49, 125] =
     [109, 188, 107, 62, 78, 93, 171, 141, 207, 1, 167, 178, 22, 135, 183, 235, 33, 134, 195,
      165, 167, 207, 244, 154, 8, 146, 79, 105, 50, 235, 193, 178]"
  unfolding sha256_def pad_inner_id1
  by (simp add: sha_blocks.simps compress_ipad compress_inner_id1 bytes_of32_def del: One_nat_def)

lemma compress_outer_id1:
  "compress (1813164876, 2307346288, 907203296, 2864528302, 1072721759, 4208979805, 882290618, 1752467429)
     [109, 188, 107, 62, 78, 93, 171, 141, 207, 1, 167, 178, 22, 135, 183, 235, 33, 134, 195,
      165, 167, 207, 244, 154, 8, 146, 79, 105, 50, 235, 193, 178, 128, 0, 0, 0, 0, 0, 0, 0,
      0, 0, 0, 0, 0, 0, 0, 0, 0, 0, 0, 0, 0, 0, 0, 0, 0, 0, 0, 0, 0, 0, 3, 0] =
   (1450349709, 2601236702, 1650813159, 3830050160, 356653017, 204967371, 2187117075, 1606830566)"
  by (simp add: compress_def H0_def K256_def sched_def add32_def ssig0_def ssig1_def bsig0_def bsig1_def Ch_def Maj_def rotr_def shr_def Let_def)

lemma length_outer_id1:
  "length
     [52, 41, 47, 52, 92, 92, 92, 92, 92, 92, 92, 92, 92, 92, 92, 92, 92, 92, 92, 92, 92, 92,
      92, 92, 92, 92, 92, 92, 92, 92, 92, 92, 92, 92, 92, 92, 92, 92, 92, 92, 92, 92, 92, 92,
      92, 92, 92, 92, 92, 92, 92, 92, 92, 92, 92, 92, 92, 92, 92, 92, 92, 92, 92, 92, 109,
      188, 107, 62, 78, 93, 171, 141, 207, 1, 167, 178, 22, 135, 183, 235, 33, 134, 195, 165,
      167, 207, 244, 154, 8, 146, 79, 105, 50, 235, 193, 178] = 96"
  by simp

lemma pad_outer_id1:
  "pad
     [52, 41, 47, 52, 92, 92, 92, 92, 92, 92, 92, 92, 92, 92, 92, 92, 92, 92, 92, 92, 92, 92,
      92, 92, 92, 92, 92, 92, 92, 92, 92, 92, 92, 92, 92, 92, 92, 92, 92, 92, 92, 92, 92, 92,
      92, 92, 92, 92, 92, 92, 92, 92, 92, 92, 92, 92, 92, 92, 92, 92, 92, 92, 92, 92, 109,
      188, 107, 62, 78, 93, 171, 141, 207, 1, 167, 178, 22, 135, 183, 235, 33, 134, 195, 165,
      167, 207, 244, 154, 8, 146, 79, 105, 50, 235, 193, 178] =
     [52, 41, 47, 52, 92, 92, 92, 92, 92, 92, 92, 92, 92, 92, 92, 92, 92, 92, 92, 92, 92, 92,
      92, 92, 92, 92, 92, 92, 92, 92, 92, 92, 92, 92, 92, 92, 92, 92, 92, 92, 92, 92, 92, 92,
      92, 92, 92, 92, 92, 92, 92, 92, 92, 92, 92, 92, 92, 92, 92, 92, 92, 92, 92, 92, 109,
      188, 107, 62, 78, 93, 171, 141, 207, 1, 167, 178, 22, 135, 183, 235, 33, 134, 195, 165,
      167, 207, 244, 154, 8, 146, 79, 105, 50, 235, 193, 178, 128, 0, 0, 0, 0, 0, 0, 0, 0, 0,
      0, 0, 0, 0, 0, 0, 0, 0, 0, 0, 0, 0, 0, 0, 0, 0, 0, 0, 0, 0, 3, 0]"
  unfolding pad_def length_outer_id1
  by (simp add: bytes_of32_def replicate_numeral replicate_one del: One_nat_def)

lemma sha256_outer_id1:
  "sha256
     [52, 41, 47, 52, 92, 92, 92, 92, 92, 92, 92, 92, 92, 92, 92, 92, 92, 92, 92, 92, 92, 92,
      92, 92, 92, 92, 92, 92, 92, 92, 92, 92, 92, 92, 92, 92, 92, 92, 92, 92, 92, 92, 92, 92,
      92, 92, 92, 92, 92, 92, 92, 92, 92, 92, 92, 92, 92, 92, 92, 92, 92, 92, 92, 92, 109,
      188, 107, 62, 78, 93, 171, 141, 207, 1, 167, 178, 22, 135, 183, 235, 33, 134, 195, 165,
      167, 207, 244, 154, 8, 146, 79, 105, 50, 235, 193, 178] =
     [86, 114, 148, 141, 155, 11, 184, 222, 98, 101, 104, 231, 228, 73, 237, 112, 21, 66, 23,
      217, 12, 55, 141, 203, 130, 92, 194, 19, 95, 198, 73, 230]"
  unfolding sha256_def pad_outer_id1
  by (simp add: sha_blocks.simps compress_opad compress_outer_id1 bytes_of32_def del: One_nat_def)

lemma hmac_id1:
  "hmac_sha256 [104, 117, 115, 104] [123, 34, 105, 100, 34, 58, 49, 125] =
     [86, 114, 148, 141, 155, 11, 184, 222, 98, 101, 104, 231, 228, 73, 237, 112, 21, 66, 23,
      217, 12, 55, 141, 203, 130, 92, 194, 19, 95, 198, 73, 230]"
  by (simp add: hmac_sha256_def replicate_numeral replicate_one sha256_inner_id1 sha256_outer_id1 del: One_nat_def)

lemma hmac_base64_id1:
  "base64 (hmac_sha256 [104, 117, 115, 104] [123, 34, 105, 100, 34, 58, 49, 125]) =
     ''VnKUjZsLuN5iZWjn5EntcBVCF9kMN43LglzCE1/GSeY=''"
  by (simp add: hmac_id1 b64char_def)

lemma compress_inner_ff:
  "compress (571185350, 3607144631, 1137766794, 375235380, 44129867, 1480392959, 1913898119, 229849062)
     [255, 128, 0, 0, 0, 0, 0, 0, 0, 0, 0, 0, 0, 0, 0, 0, 0, 0, 0, 0, 0, 0, 0, 0, 0, 0, 0, 0,
      0, 0, 0, 0, 0, 0, 0, 0, 0, 0, 0, 0, 0, 0, 0, 0, 0, 0, 0, 0, 0, 0, 0, 0, 0, 0, 0, 0, 0,
      0, 0, 0, 0, 0, 2, 8] =
   (2970410909, 1014533380, 3777601372, 1223674351, 247990221, 4155339922, 2356615896, 1347904357)"
  by (simp add: compress_def H0_def K256_def sched_def add32_def ssig0_def ssig1_def bsig0_def bsig1_def Ch_def Maj_def rotr_def shr_def Let_def)

lemma length_inner_ff:
  "length
     [94, 67, 69, 94, 54, 54, 54, 54, 54, 54, 54, 54, 54, 54, 54, 54, 54, 54, 54, 54, 54, 54,
      54, 54, 54, 54, 54, 54, 54, 54, 54, 54, 54, 54, 54, 54, 54, 54, 54, 54, 54, 54, 54, 54,
      54, 54, 54, 54, 54, 54, 54, 54, 54, 54, 54, 54, 54, 54, 54, 54, 54, 54, 54, 54, 255] = 65"
  by simp

lemma pad_inner_ff:
  "pad
     [94, 67, 69, 94, 54, 54, 54, 54, 54, 54, 54, 54, 54, 54, 54, 54, 54, 54, 54, 54, 54, 54,
      54, 54, 54, 54, 54, 54, 54, 54, 54, 54, 54, 54, 54, 54, 54, 54, 54, 54, 54, 54, 54, 54,
      54, 54, 54, 54, 54, 54, 54, 54, 54, 54, 54, 54, 54, 54, 54, 54, 54, 54, 54, 54, 255] =
     [94, 67, 69, 94, 54, 54, 54, 54, 54, 54, 54, 54, 54, 54, 54, 54, 54, 54, 54, 54, 54, 54,
      54, 54, 54, 54, 54, 54, 54, 54, 54, 54, 54, 54, 54, 54, 54, 54, 54, 54, 54, 54, 54, 54,
      54, 54, 54, 54, 54, 54, 54, 54, 54, 54, 54, 54, 54, 54, 54, 54, 54, 54, 54, 54, 255,
      128, 0, 0, 0, 0, 0, 0, 0, 0, 0, 0, 0, 0, 0, 0, 0, 0, 0, 0, 0, 0, 0, 0, 0, 0, 0, 0, 0, 0,
      0, 0, 0, 0, 0, 0, 0, 0, 0, 0, 0, 0, 0, 0, 0, 0, 0, 0, 0, 0, 0, 0, 0, 0, 0, 0, 0, 0, 0,
      0, 0, 0, 2, 8]"
  unfolding pad_def length_inner_ff
  by (simp add: bytes_of32_def replicate_numeral replicate_one del: One_nat_def)

lemma sha256_inner_ff:
  "sha256
     [94, 67, 69, 94, 54, 54, 54, 54, 54, 54, 54, 54, 54, 54, 54, 54, 54, 54, 54, 54, 54, 54,
      54, 54, 54, 54, 54, 54, 54, 54, 54, 54, 54, 54, 54, 54, 54, 54, 54, 54, 54, 54, 54, 54,
      54, 54, 54, 54, 54, 54, 54, 54, 54, 54, 54, 54, 54, 54, 54, 54, 54, 54, 54, 54, 255] =
     [177, 12, 223, 157, 60, 120, 141, 4, 225, 41, 159, 92, 72, 239, 201, 239, 14, 200, 7,
      205, 247, 173, 116, 146, 140, 119, 26, 216, 80, 87, 99, 101]"
  unfolding sha256_def pad_inner_ff
  by (simp add: sha_blocks.simps compress_ipad compress_inner_ff bytes_of32_def del: One_nat_def)

lemma compress_outer_ff:
  "compress (1813164876, 2307346288, 907203296, 2864528302, 1072721759, 4208979805, 882290618, 1752467429)
     [177, 12, 223, 157, 60, 120, 141, 4, 225, 41, 159, 92, 72, 239, 201, 239, 14, 200, 7,
      205, 247, 173, 116, 146, 140, 119, 26, 216, 80, 87, 99, 101, 128, 0, 0, 0, 0, 0, 0, 0,
      0, 0, 0, 0, 0, 0, 0, 0, 0, 0, 0, 0, 0, 0, 0, 0, 0, 0, 0, 0, 0, 0, 3, 0] =
   (1657218314, 3263799061, 2152651745, 1401349946, 139517040, 4055669014, 3183903681, 1439010212)"
  by (simp add: compress_def H0_def K256_def sched_def add32_def ssig0_def ssig1_def bsig0_def bsig1_def Ch_def Maj_def rotr_def shr_def Let_def)

lemma length_outer_ff:
  "length
     [52, 41, 47, 52, 92, 92, 92, 92, 92, 92, 92, 92, 92, 92, 92, 92, 92, 92, 92, 92, 92, 92,
      92, 92, 92, 92, 92, 92, 92, 92, 92, 92, 92, 92, 92, 92, 92, 92, 92, 92, 92, 92, 92, 92,
      92, 92, 92, 92, 92, 92, 92, 92, 92, 92, 92, 92, 92, 92, 92, 92, 92, 92, 92, 92, 177, 12,
      223, 157, 60, 120, 141, 4, 225, 41, 159, 92, 72, 239, 201, 239, 14, 200, 7, 205, 247,
      173, 116, 146, 140, 119, 26, 216, 80, 87, 99, 101] = 96"
  by simp

lemma pad_outer_ff:
  "pad
     [52, 41, 47, 52, 92, 92, 92, 92, 92, 92, 92, 92, 92, 92, 92, 92, 92, 92, 92, 92, 92, 92,
      92, 92, 92, 92, 92, 92, 92, 92, 92, 92, 92, 92, 92, 92, 92, 92, 92, 92, 92, 92, 92, 92,
      92, 92, 92, 92, 92, 92, 92, 92, 92, 92, 92, 92, 92, 92, 92, 92, 92, 92, 92, 92, 177, 12,
      223, 157, 60, 120, 141, 4, 225, 41, 159, 92, 72, 239, 201, 239, 14, 200, 7, 205, 247,
      173, 116, 146, 140, 119, 26, 216, 80, 87, 99, 101] =
     [52, 41, 47, 52, 92, 92, 92, 92, 92, 92, 92, 92, 92, 92, 92, 92, 92, 92, 92, 92, 92, 92,
      92, 92, 92, 92, 92, 92, 92, 92, 92, 92, 92, 92, 92, 92, 92, 92, 92, 92, 92, 92, 92, 92,
      92, 92, 92, 92, 92, 92, 92, 92, 92, 92, 92, 92, 92, 92, 92, 92, 92, 92, 92, 92, 177, 12,
      223, 157, 60, 120, 141, 4, 225, 41, 159, 92, 72, 239, 201, 239, 14, 200, 7, 205, 247,
      173, 116, 146, 140, 119, 26, 216, 80, 87, 99, 101, 128, 0, 0, 0, 0, 0, 0, 0, 0, 0, 0, 0,
      0, 0, 0, 0, 0, 0, 0, 0, 0, 0, 0, 0, 0, 0, 0, 0, 0, 0, 3, 0]"
  unfolding pad_def length_outer_ff
  by (simp add: bytes_of32_def replicate_numeral replicate_one del: One_nat_def)

lemma sha256_outer_ff:
  "sha256
     [52, 41, 47, 52, 92, 92, 92, 92, 92, 92, 92, 92, 92, 92, 92, 92, 92, 92, 92, 92, 92, 92,
      92, 92, 92, 92, 92, 92, 92, 92, 92, 92, 92, 92, 92, 92, 92, 92, 92, 92, 92, 92, 92, 92,
      92, 92, 92, 92, 92, 92, 92, 92, 92, 92, 92, 92, 92, 92, 92, 92, 92, 92, 92, 92, 177, 12,
      223, 157, 60, 120, 141, 4, 225, 41, 159, 92, 72, 239, 201, 239, 14, 200, 7, 205, 247,
      173, 116, 146, 140, 119, 26, 216, 80, 87, 99, 101] =
     [98, 199, 37, 10, 194, 137, 159, 21, 128, 78, 219, 225, 83, 134, 231, 58, 8, 80, 220,
      112, 241, 188, 153, 22, 189, 198, 131, 193, 85, 197, 141, 164]"
  unfolding sha256_def pad_outer_ff
  by (simp add: sha_blocks.simps compress_opad compress_outer_ff bytes_of32_def del: One_nat_def)

lemma hmac_ff:
  "hmac_sha256 [104, 117, 115, 104] [255] =
     [98, 199, 37, 10, 194, 137, 159, 21, 128, 78, 219, 225, 83, 134, 231, 58, 8, 80, 220,
      112, 241, 188, 153, 22, 189, 198, 131, 193, 85, 197, 141, 164]"
  by (simp add: hmac_sha256_def replicate_numeral replicate_one sha256_inner_ff sha256_outer_ff del: One_nat_def)

lemma hmac_base64_ff:
  "base64 (hmac_sha256 [104, 117, 115, 104] [255]) =
     ''YsclCsKJnxWATtvhU4bnOghQ3HDxvJkWvcaDwVXFjaQ=''"
  by (simp add: hmac_ff b64char_def)

lemma compress_inner_fffd:
  "compress (571185350, 3607144631, 1137766794, 375235380, 44129867, 1480392959, 1913898119, 229849062)
     [239, 191, 189, 128, 0, 0, 0, 0, 0, 0, 0, 0, 0, 0, 0, 0, 0, 0, 0, 0, 0, 0, 0, 0, 0, 0,
      0, 0, 0, 0, 0, 0, 0, 0, 0, 0, 0, 0, 0, 0, 0, 0, 0, 0, 0, 0, 0, 0, 0, 0, 0, 0, 0, 0, 0,
      0, 0, 0, 0, 0, 0, 0, 2, 24] =
   (2445177201, 911371441, 332657744, 702951834, 2980712915, 109182710, 2735240761, 715050645)"
  by (simp add: compress_def H0_def K256_def sched_def add32_def ssig0_def ssig1_def bsig0_def bsig1_def Ch_def Maj_def rotr_def shr_def Let_def)

lemma length_inner_fffd:
  "length
     [94, 67, 69, 94, 54, 54, 54, 54, 54, 54, 54, 54, 54, 54, 54, 54, 54, 54, 54, 54, 54, 54,
      54, 54, 54, 54, 54, 54, 54, 54, 54, 54, 54, 54, 54, 54, 54, 54, 54, 54, 54, 54, 54, 54,
      54, 54, 54, 54, 54, 54, 54, 54, 54, 54, 54, 54, 54, 54, 54, 54, 54, 54, 54, 54, 239,
      191, 189] = 67"
  by simp

lemma pad_inner_fffd:
  "pad
     [94, 67, 69, 94, 54, 54, 54, 54, 54, 54, 54, 54, 54, 54, 54, 54, 54, 54, 54, 54, 54, 54,
      54, 54, 54, 54, 54, 54, 54, 54, 54, 54, 54, 54, 54, 54, 54, 54, 54, 54, 54, 54, 54, 54,
      54, 54, 54, 54, 54, 54, 54, 54, 54, 54, 54, 54, 54, 54, 54, 54, 54, 54, 54, 54, 239,
      191, 189] =
     [94, 67, 69, 94, 54, 54, 54, 54, 54, 54, 54, 54, 54, 54, 54, 54, 54, 54, 54, 54, 54, 54,
      54, 54, 54, 54, 54, 54, 54, 54, 54, 54, 54, 54, 54, 54, 54, 54, 54, 54, 54, 54, 54, 54,
      54, 54, 54, 54, 54, 54, 54, 54, 54, 54, 54, 54, 54, 54, 54, 54, 54, 54, 54, 54, 239,
      191, 189, 128, 0, 0, 0, 0, 0, 0, 0, 0, 0, 0, 0, 0, 0, 0, 0, 0, 0, 0, 0, 0, 0, 0, 0, 0,
      0, 0, 0, 0, 0, 0, 0, 0, 0, 0, 0, 0, 0, 0, 0, 0, 0, 0, 0, 0, 0, 0, 0, 0, 0, 0, 0, 0, 0,
      0, 0, 0, 0, 0, 2, 24]"
  unfolding pad_def length_inner_fffd
  by (simp add: bytes_of32_def replicate_numeral replicate_one del: One_nat_def)

lemma sha256_inner_fffd:
  "sha256
     [94, 67, 69, 94, 54, 54, 54, 54, 54, 54, 54, 54, 54, 54, 54, 54, 54, 54, 54, 54, 54, 54,
      54, 54, 54, 54, 54, 54, 54, 54, 54, 54, 54, 54, 54, 54, 54, 54, 54, 54, 54, 54, 54, 54,
      54, 54, 54, 54, 54, 54, 54, 54, 54, 54, 54, 54, 54, 54, 54, 54, 54, 54, 54, 54, 239,
      191, 189] =
     [145, 190, 113, 113, 54, 82, 108, 177, 19, 211, 244, 80, 41, 230, 49, 154, 177, 170, 17,
      211, 6, 129, 254, 246, 163, 8, 118, 57, 42, 158, 206, 149]"
  unfolding sha256_def pad_inner_fffd
  by (simp add: sha_blocks.simps compress_ipad compress_inner_fffd bytes_of32_def del: One_nat_def)

lemma compress_outer_fffd:
  "compress (1813164876, 2307346288, 907203296, 2864528302, 1072721759, 4208979805, 882290618, 1752467429)
     [145, 190, 113, 113, 54, 82, 108, 177, 19, 211, 244, 80, 41, 230, 49, 154, 177, 170, 17,
      211, 6, 129, 254, 246, 163, 8, 118, 57, 42, 158, 206, 149, 128, 0, 0, 0, 0, 0, 0, 0, 0,
      0, 0, 0, 0, 0, 0, 0, 0, 0, 0, 0, 0, 0, 0, 0, 0, 0, 0, 0, 0, 0, 3, 0] =
   (3986783437, 2542730336, 2842771546, 3307077270, 615833197, 3429121582, 752019456, 2949403428)"
  by (simp add: compress_def H0_def K256_def sched_def add32_def ssig0_def ssig1_def bsig0_def bsig1_def Ch_def Maj_def rotr_def shr_def Let_def)

lemma length_outer_fffd:
  "length
     [52, 41, 47, 52, 92, 92, 92, 92, 92, 92, 92, 92, 92, 92, 92, 92, 92, 92, 92, 92, 92, 92,
      92, 92, 92, 92, 92, 92, 92, 92, 92, 92, 92, 92, 92, 92, 92, 92, 92, 92, 92, 92, 92, 92,
      92, 92, 92, 92, 92, 92, 92, 92, 92, 92, 92, 92, 92, 92, 92, 92, 92, 92, 92, 92, 145,
      190, 113, 113, 54, 82, 108, 177, 19, 211, 244, 80, 41, 230, 49, 154, 177, 170, 17, 211,
      6, 129, 254, 246, 163, 8, 118, 57, 42, 158, 206, 149] = 96"
  by simp

lemma pad_outer_fffd:
  "pad
     [52, 41, 47, 52, 92, 92, 92, 92, 92, 92, 92, 92, 92, 92, 92, 92, 92, 92, 92, 92, 92, 92,
      92, 92, 92, 92, 92, 92, 92, 92, 92, 92, 92, 92, 92, 92, 92, 92, 92, 92, 92, 92, 92, 92,
      92, 92, 92, 92, 92, 92, 92, 92, 92, 92, 92, 92, 92, 92, 92, 92, 92, 92, 92, 92, 145,
      190, 113, 113, 54, 82, 108, 177, 19, 211, 244, 80, 41, 230, 49, 154, 177, 170, 17, 211,
      6, 129, 254, 246, 163, 8, 118, 57, 42, 158, 206, 149] =
     [52, 41, 47, 52, 92, 92, 92, 92, 92, 92, 92, 92, 92, 92, 92, 92, 92, 92, 92, 92, 92, 92,
      92, 92, 92, 92, 92, 92, 92, 92, 92, 92, 92, 92, 92, 92, 92, 92, 92, 92, 92, 92, 92, 92,
      92, 92, 92, 92, 92, 92, 92, 92, 92, 92, 92, 92, 92, 92, 92, 92, 92, 92, 92, 92, 145,
      190, 113, 113, 54, 82, 108, 177, 19, 211, 244, 80, 41, 230, 49, 154, 177, 170, 17, 211,
      6, 129, 254, 246, 163, 8, 118, 57, 42, 158, 206, 149, 128, 0, 0, 0, 0, 0, 0, 0, 0, 0, 0,
      0, 0, 0, 0, 0, 0, 0, 0, 0, 0, 0, 0, 0, 0, 0, 0, 0, 0, 0, 3, 0]"
  unfolding pad_def length_outer_fffd
  by (simp add: bytes_of32_def replicate_numeral replicate_one del: One_nat_def)

lemma sha256_outer_fffd:
  "sha256
     [52, 41, 47, 52, 92, 92, 92, 92, 92, 92, 92, 92, 92, 92, 92, 92, 92, 92, 92, 92, 92, 92,
      92, 92, 92, 92, 92, 92, 92, 92, 92, 92, 92, 92, 92, 92, 92, 92, 92, 92, 92, 92, 92, 92,
      92, 92, 92, 92, 92, 92, 92, 92, 92, 92, 92, 92, 92, 92, 92, 92, 92, 92, 92, 92, 145,
      190, 113, 113, 54, 82, 108, 177, 19, 211, 244, 80, 41, 230, 49, 154, 177, 170, 17, 211,
      6, 129, 254, 246, 163, 8, 118, 57, 42, 158, 206, 149] =
     [237, 161, 124, 205, 151, 142, 252, 96, 169, 113, 64, 90, 197, 29, 254, 150, 36, 180,
      222, 109, 204, 100, 62, 46, 44, 210, 232, 0, 175, 204, 83, 36]"
  unfolding sha256_def pad_outer_fffd
  by (simp add: sha_blocks.simps compress_opad compress_outer_fffd bytes_of32_def del: One_nat_def)

lemma hmac_fffd:
  "hmac_sha256 [104, 117, 115, 104] [239, 191, 189] =
     [237, 161, 124, 205, 151, 142, 252, 96, 169, 113, 64, 90, 197, 29, 254, 150, 36, 180,
      222, 109, 204, 100, 62, 46, 44, 210, 232, 0, 175, 204, 83, 36]"
  by (simp add: hmac_sha256_def replicate_numeral replicate_one sha256_inner_fffd sha256_outer_fffd del: One_nat_def)

lemma hmac_base64_fffd:
  "base64 (hmac_sha256 [104, 117, 115, 104] [239, 191, 189]) =
     ''7aF8zZeO/GCpcUBaxR3+liS03m3MZD4uLNLoAK/MUyQ=''"
  by (simp add: hmac_fffd b64char_def)


lemma exampleKey: "utf8_encode (string_code_units ''hush'') = [104, 117, 115, 104]"
  by (simp add: utf8_encode_def utf8_encode_cp_def string_code_units_def)

lemma generatedHash_exampleBody:
  "generatedHash exampleContext exampleBody = ''VnKUjZsLuN5iZWjn5EntcBVCF9kMN43LglzCE1/GSeY=''"
proof -
  have "utf8_encode (Buffer_toString_utf8 exampleBody) = [123, 34, 105, 100, 34, 58, 49, 125]"
    by (simp add: Buffer_toString_utf8_def exampleBody_def utf8_encode_def utf8_encode_cp_def)
  then show ?thesis
    by (simp only: generatedHash_spec spec_signature_def exampleContext_def exampleKey
          hmac_base64_id1 Context.simps)
qed

lemma generatedHash_ff:
  "generatedHash exampleContext [0xFF] = ''7aF8zZeO/GCpcUBaxR3+liS03m3MZD4uLNLoAK/MUyQ=''"
proof -
  have "utf8_encode (Buffer_toString_utf8 [0xFF]) = [239, 191, 189]"
    by (simp add: Buffer_toString_utf8_def utf8_encode_def utf8_encode_cp_def)
  then show ?thesis
    by (simp only: generatedHash_spec spec_signature_def exampleContext_def exampleKey
          hmac_base64_fffd Context.simps)
qed

lemma spec_signature_ff:
  "spec_signature ''hush'' [255] = ''YsclCsKJnxWATtvhU4bnOghQ3HDxvJkWvcaDwVXFjaQ=''"
  by (simp only: spec_signature_def exampleKey hmac_base64_ff)

lemma lower_names:
  "toLowerCase ''X-Shopify-Hmac-Sha256'' = ''x-shopify-hmac-sha256''"
  "toLowerCase ''X-Shopify-Topic'' = ''x-shopify-topic''"
  "toLowerCase ''X-Shopify-Shop-Domain'' = ''x-shopify-shop-domain''"
  "toLowerCase ''x-shopify-shop-domain'' = ''x-shopify-shop-domain''"
  by (simp_all add: toLowerCase_def toLowerChar_def char_of_def bit_Suc_0_iff)

lemma read_exampleHeaders:
  "read_headers shopifyHeader (exampleHeaders s t d) (None, None, None) = (Some s, Some t, Some d)"
  by (simp add: shopifyHeader_def exampleHeaders_def lower_names)

lemma exampleHeaders_present:
  "\<not> absent (Hmac shopifyHeader) (exampleHeaders s t d)"
  "\<not> absent (Topic shopifyHeader) (exampleHeaders s t d)"
  "\<not> absent (Domain' shopifyHeader) (exampleHeaders s t d)"
  by (simp_all add: absent_def shopifyHeader_def exampleHeaders_def lower_names)

lemma process_empty_domain:
  "s \<noteq> [] \<Longrightarrow> t \<noteq> [] \<Longrightarrow>
   process exampleContext shopifyHeader reg (exampleHeaders s t '''') body =
     ([], Inl (InvalidWebhookError
       ''Missing one or more of the required HTTP headers to process webhooks: [X-Shopify-Shop-Domain]''))"
proof -
  assume a: "s \<noteq> []" "t \<noteq> []"
  have m: "missingHeaders shopifyHeader (Some s, Some t, Some '''') = [''X-Shopify-Shop-Domain'']"
    using a by (simp add: missingHeaders_def truthyStr_def shopifyHeader_def)
  have "process exampleContext shopifyHeader reg (exampleHeaders s t '''') body =
     ([], Inl (InvalidWebhookError (missingMessage [''X-Shopify-Shop-Domain''])))"
    using process_missing [of shopifyHeader "exampleHeaders s t ''''" exampleContext reg body]
    by (simp only: read_exampleHeaders m) simp
  then show ?thesis by (simp add: missingMessage_def)
qed

lemma canonical_orders_create:
  "map_option replace_slash (toUpperCase ''orders/create'') = Some ''ORDERS_CREATE''"
  by (simp add: toUpperChar_def replace_slash_def char_of_def bit_Suc_0_iff)

lemma spec_signature_exampleBody:
  "spec_signature (API_SECRET_KEY exampleContext) (map unat exampleBody) =
     ''VnKUjZsLuN5iZWjn5EntcBVCF9kMN43LglzCE1/GSeY=''"
proof -
  have "map unat exampleBody = [123, 34, 105, 100, 34, 58, 49, 125]"
    by (simp add: exampleBody_def)
  then show ?thesis
    by (simp only: spec_signature_def exampleContext_def exampleKey hmac_base64_id1
          Context.simps)
qed

lemma process_ff_dispatched:
  "process exampleContext shopifyHeader
     [\<lparr>path = ''/cb'', topic = ''ORDERS_CREATE'', webhookHandler = ''H''\<rparr>]
     (exampleHeaders ''7aF8zZeO/GCpcUBaxR3+liS03m3MZD4uLNLoAK/MUyQ='' ''orders/create''
        ''shop.example.com'')
     [0xFF] =
     ([CreateHmac, SafeCompare, HandlerCall ''H'' ''ORDERS_CREATE'' ''shop.example.com'' [0xFF]],
      Inr \<lparr>statusCode = Ok, headers = []\<rparr>)"
proof -
  have "process exampleContext shopifyHeader
     [\<lparr>path = ''/cb'', topic = ''ORDERS_CREATE'', webhookHandler = ''H''\<rparr>]
     (exampleHeaders ''7aF8zZeO/GCpcUBaxR3+liS03m3MZD4uLNLoAK/MUyQ='' ''orders/create''
        ''shop.example.com'')
     [0xFF] =
     ([CreateHmac, SafeCompare,
       HandlerCall (webhookHandler \<lparr>path = ''/cb'', topic = ''ORDERS_CREATE'', webhookHandler = ''H''\<rparr>)
         ''ORDERS_CREATE'' ''shop.example.com'' [0xFF]],
      Inr \<lparr>statusCode = Ok, headers = []\<rparr>)"
  proof (rule process_dispatch)
    show "read_headers shopifyHeader
          (exampleHeaders ''7aF8zZeO/GCpcUBaxR3+liS03m3MZD4uLNLoAK/MUyQ='' ''orders/create''
             ''shop.example.com'') (None, None, None) =
        (Some ''7aF8zZeO/GCpcUBaxR3+liS03m3MZD4uLNLoAK/MUyQ='', Some ''orders/create'',
         Some ''shop.example.com'')"
      by (rule read_exampleHeaders)
    show "''7aF8zZeO/GCpcUBaxR3+liS03m3MZD4uLNLoAK/MUyQ='' \<noteq> []" by simp
    show "''orders/create'' \<noteq> []" by simp
    show "''shop.example.com'' \<noteq> []" by simp
    show "''7aF8zZeO/GCpcUBaxR3+liS03m3MZD4uLNLoAK/MUyQ='' = generatedHash exampleContext [0xFF]"
      by (simp only: generatedHash_ff)
    show "map_option replace_slash (toUpperCase ''orders/create'') = Some ''ORDERS_CREATE''"
      by (rule canonical_orders_create)
    show "find (\<lambda>entry. topic entry = ''ORDERS_CREATE'')
            [\<lparr>path = ''/cb'', topic = ''ORDERS_CREATE'', webhookHandler = ''H''\<rparr>] =
          Some \<lparr>path = ''/cb'', topic = ''ORDERS_CREATE'', webhookHandler = ''H''\<rparr>"
      by simp
  qed
  then show ?thesis by simp
qed


section \<open>The claims\<close>

text \<open>
  C10. \<open>isWebhookPath(path)\<close> is true exactly when some entry of the registry has a
  \<open>path\<close> field equal to \<open>path\<close> (equality of strings, so the case matters), and it
  leaves the registry as it was.
\<close>

theorem isWebhookPath_exact:
  "isWebhookPath webhookRegistry p =
     (webhookRegistry, \<exists>entry\<in>set webhookRegistry. path entry = p)"
  by (auto simp: isWebhookPath_def find_None_iff)

theorem isWebhookPath_exact_witness:
  "isWebhookPath [\<lparr>path = ''/webhooks'', topic = ''ORDERS_CREATE'', webhookHandler = ''h''\<rparr>]
     ''/webhooks'' =
     ([\<lparr>path = ''/webhooks'', topic = ''ORDERS_CREATE'', webhookHandler = ''h''\<rparr>], True) \<and>
   isWebhookPath [\<lparr>path = ''/webhooks'', topic = ''ORDERS_CREATE'', webhookHandler = ''h''\<rparr>]
     ''/Webhooks'' =
     ([\<lparr>path = ''/webhooks'', topic = ''ORDERS_CREATE'', webhookHandler = ''h''\<rparr>], False)"
  using isWebhookPath_exact
          [of "[\<lparr>path = ''/webhooks'', topic = ''ORDERS_CREATE'', webhookHandler = ''h''\<rparr>]"
              "''/webhooks''"]
        isWebhookPath_exact
          [of "[\<lparr>path = ''/webhooks'', topic = ''ORDERS_CREATE'', webhookHandler = ''h''\<rparr>]"
              "''/Webhooks''"]
  by simp

text \<open>
  C3. After any sequence of \<open>register\<close> calls that starts from the empty registry (whether
  the calls succeed or not), no two entries of the registry have the same topic. When two
  calls that follow such a sequence both succeed and register the same topic, the registry
  has exactly one entry for that topic, and it holds the path and the handler of the
  second call.
\<close>

theorem registry_one_entry_per_topic:
  "distinct (map topic (run_registers ctx [] calls)) \<and>
   (register G1 ctx (run_registers ctx [] calls) options1 = (reg1, ev1, Inr r1) \<and> success r1 \<and>
    register G2 ctx reg1 options2 = (reg2, ev2, Inr r2) \<and> success r2 \<and>
    topic options2 = topic options1 \<longrightarrow>
    distinct (map topic reg2) \<and>
    filter (\<lambda>entry. topic entry = topic options1) reg2 =
      [\<lparr>path = path options2, topic = topic options1,
        webhookHandler = webhookHandler options2\<rparr>])"
proof (intro conjI impI)
  show d0: "distinct (map topic (run_registers ctx [] calls))"
    by (rule run_registers_distinct) simp
  assume a: "register G1 ctx (run_registers ctx [] calls) options1 = (reg1, ev1, Inr r1) \<and>
    success r1 \<and> register G2 ctx reg1 options2 = (reg2, ev2, Inr r2) \<and> success r2 \<and>
    topic options2 = topic options1"
  have "distinct (map topic reg1)"
    using register_distinct [OF d0, of G1 ctx options1] a by simp
  then show "distinct (map topic reg2)"
    using register_distinct [of reg1 G2 ctx options2] a by simp
  have "reg2 = filter (\<lambda>item. topic item \<noteq> topic options2) reg1 @
            [\<lparr>path = path options2, topic = topic options2,
              webhookHandler = webhookHandler options2\<rparr>]"
    using a register_success_store [of G2 ctx reg1 options2 reg2 ev2 r2] by simp
  then show "filter (\<lambda>entry. topic entry = topic options1) reg2 =
      [\<lparr>path = path options2, topic = topic options1,
        webhookHandler = webhookHandler options2\<rparr>]"
    using a filter_registered [of "topic options1" reg1] by simp
qed

lemma register_example:
  "register (answeringClient (Inr []) (Inr createdBody)) exampleContext reg
     (exampleOptions t h) =
     (filter (\<lambda>item. topic item \<noteq> t) reg @ [\<lparr>path = ''/cb'', topic = t, webhookHandler = h\<rparr>],
      [ClientQuery (buildCheckQuery t),
       ClientQuery (buildQuery t ''https://host/cb'' Http None)],
      Inr \<lparr>success = True, result = createdBody\<rparr>)"
  by (simp add: register_def answeringClient_def exampleOptions_def exampleContext_def
        isSuccess_def hasWebhookSubscription_def truthyStr_def createdBody_def)

lemma exampleOptions_fields:
  "path (exampleOptions t h) = ''/cb''" "topic (exampleOptions t h) = t"
  "webhookHandler (exampleOptions t h) = h"
  by (simp_all add: exampleOptions_def)

theorem registry_one_entry_per_topic_witness:
  "distinct (map topic (run_registers exampleContext []
      [(answeringClient (Inr []) (Inr createdBody), exampleOptions ''PRODUCTS_UPDATE'' ''h0'')])) \<and>
   filter (\<lambda>entry. topic entry = ''ORDERS_CREATE'')
     (fst (register (answeringClient (Inr []) (Inr createdBody)) exampleContext
        (fst (register (answeringClient (Inr []) (Inr createdBody)) exampleContext
           (run_registers exampleContext []
              [(answeringClient (Inr []) (Inr createdBody),
                exampleOptions ''PRODUCTS_UPDATE'' ''h0'')])
           (exampleOptions ''ORDERS_CREATE'' ''h1'')))
        (exampleOptions ''ORDERS_CREATE'' ''h2''))) =
     [\<lparr>path = ''/cb'', topic = ''ORDERS_CREATE'', webhookHandler = ''h2''\<rparr>]"
  using registry_one_entry_per_topic
    [of exampleContext
        "[(answeringClient (Inr []) (Inr createdBody), exampleOptions ''PRODUCTS_UPDATE'' ''h0'')]"
        "answeringClient (Inr []) (Inr createdBody)" "exampleOptions ''ORDERS_CREATE'' ''h1''"
        "[\<lparr>path = ''/cb'', topic = ''PRODUCTS_UPDATE'', webhookHandler = ''h0''\<rparr>,
          \<lparr>path = ''/cb'', topic = ''ORDERS_CREATE'', webhookHandler = ''h1''\<rparr>]"
        "[ClientQuery (buildCheckQuery ''ORDERS_CREATE''),
          ClientQuery (buildQuery ''ORDERS_CREATE'' ''https://host/cb'' Http None)]"
        "\<lparr>success = True, result = createdBody\<rparr>"
        "answeringClient (Inr []) (Inr createdBody)" "exampleOptions ''ORDERS_CREATE'' ''h2''"
        "[\<lparr>path = ''/cb'', topic = ''PRODUCTS_UPDATE'', webhookHandler = ''h0''\<rparr>,
          \<lparr>path = ''/cb'', topic = ''ORDERS_CREATE'', webhookHandler = ''h2''\<rparr>]"
        "[ClientQuery (buildCheckQuery ''ORDERS_CREATE''),
          ClientQuery (buildQuery ''ORDERS_CREATE'' ''https://host/cb'' Http None)]"
        "\<lparr>success = True, result = createdBody\<rparr>"]
  by (simp add: register_example exampleOptions_fields)

text \<open>
  C7. If the existence check answers with a subscription (the query asks for the first one,
  and \<open>register\<close> reads \<open>edges[0]\<close>) whose callback address equals the target address
  \<open>https://<HOST_NAME><path>\<close>, then \<open>register\<close> sends the existence check and nothing
  else to the transport, and returns success with the empty object as result.
\<close>

theorem register_already_registered:
  "query_check (G (shop options) (accessToken options)) (buildCheckQuery (topic options)) =
     Inr (edge # rest) \<Longrightarrow>
   node_callbackUrl edge = ''https://'' @ HOST_NAME ctx @ path options \<Longrightarrow>
   register G ctx reg options =
     (filter (\<lambda>item. topic item \<noteq> topic options) reg @
        [\<lparr>path = path options, topic = topic options,
          webhookHandler = webhookHandler options\<rparr>],
      [ClientQuery (buildCheckQuery (topic options))],
      Inr \<lparr>success = True, result = JObj []\<rparr>)"
  by (simp add: register_def Let_def)

theorem register_already_registered_witness:
  "register
     (answeringClient
        (Inr [\<lparr>node_id = ''gid://shopify/WebhookSubscription/1'',
               node_callbackUrl = ''https://host/cb''\<rparr>])
        (Inl (TransportError ''unexpected query'')))
     exampleContext [] (exampleOptions ''ORDERS_CREATE'' ''h'') =
     ([\<lparr>path = ''/cb'', topic = ''ORDERS_CREATE'', webhookHandler = ''h''\<rparr>],
      [ClientQuery (buildCheckQuery ''ORDERS_CREATE'')],
      Inr \<lparr>success = True, result = JObj []\<rparr>)"
  using register_already_registered
    [of "answeringClient
           (Inr [\<lparr>node_id = ''gid://shopify/WebhookSubscription/1'',
                  node_callbackUrl = ''https://host/cb''\<rparr>])
           (Inl (TransportError ''unexpected query''))"
        "exampleOptions ''ORDERS_CREATE'' ''h''"
        "\<lparr>node_id = ''gid://shopify/WebhookSubscription/1'',
          node_callbackUrl = ''https://host/cb''\<rparr>"
        "[]" exampleContext "[]"]
  by (simp add: answeringClient_def exampleOptions_def exampleContext_def)

text \<open>
  C8. The registry changes only when \<open>register\<close> reports success. If the existence
  check fails, the failure is what \<open>register\<close> throws, the check was sent once and
  nothing after it, and the registry is as before. If the mutation is sent and fails, the
  failure is what \<open>register\<close> throws, each of the two queries was sent once, and the
  registry is as before. If the answer to the mutation lacks the expected success node,
  the registry is as before and no success is reported (the result is \<open>success = false\<close>
  with the answer, or the TypeError of reading a property of \<open>null\<close> or \<open>undefined\<close>).
\<close>

theorem register_store_unchanged_on_failure:
  "(let client = G (shop options) (accessToken options);
        delivery = (case deliveryMethod options of None \<Rightarrow> Http | Some m \<Rightarrow> m);
        address = ''https://'' @ HOST_NAME ctx @ path options;
        checkQuery = buildCheckQuery (topic options)
    in case register G ctx reg options of (reg', ev, out) \<Rightarrow>
       (reg' \<noteq> reg \<longrightarrow> (\<exists>r. out = Inr r \<and> success r)) \<and>
       (\<forall>e. query_check client checkQuery = Inl e \<longrightarrow>
            reg' = reg \<and> ev = [ClientQuery checkQuery] \<and> out = Inl e) \<and>
       (\<forall>edges :: WebhookCheckResponse.
          query_check client checkQuery = Inr edges \<and>
          (case edges of [] \<Rightarrow> True | edge # _ \<Rightarrow> node_callbackUrl edge \<noteq> address) \<longrightarrow>
          (let webhookId = (case edges of [] \<Rightarrow> None | edge # _ \<Rightarrow> Some (node_id edge));
               query = buildQuery (topic options) address delivery webhookId
           in (\<forall>e. query_any client query = Inl e \<longrightarrow>
                 reg' = reg \<and> ev = [ClientQuery checkQuery, ClientQuery query] \<and> out = Inl e) \<and>
              (\<forall>body.
                 query_any client query = Inr body \<and>
                 \<not> spec_containsSubscription body
                      (spec_mutationName delivery (truthyStr webhookId)) \<longrightarrow>
                 reg' = reg \<and> ev = [ClientQuery checkQuery, ClientQuery query] \<and>
                 (out = Inr \<lparr>success = False, result = body\<rparr> \<or> out = Inl TypeError)))))"
proof -
  obtain reg' ev out where r: "register G ctx reg options = (reg', ev, out)"
    by (cases "register G ctx reg options") auto
  let ?client = "G (shop options) (accessToken options)"
  let ?delivery = "case deliveryMethod options of None \<Rightarrow> Http | Some m \<Rightarrow> m"
  let ?address = "''https://'' @ HOST_NAME ctx @ path options"
  let ?check = "buildCheckQuery (topic options)"
  have a: "reg' \<noteq> reg \<longrightarrow> (\<exists>r. out = Inr r \<and> success r)"
    using register_changed_success [OF r] by blast
  have b: "\<forall>e. query_check ?client ?check = Inl e \<longrightarrow>
             reg' = reg \<and> ev = [ClientQuery ?check] \<and> out = Inl e"
    using register_check_fails [of G options _ ctx reg] r by auto
  have c: "query_any ?client
             (buildQuery (topic options) ?address ?delivery
                (case edges of [] \<Rightarrow> None | edge # _ \<Rightarrow> Some (node_id edge))) = Inl e \<longrightarrow>
           reg' = reg \<and>
           ev = [ClientQuery ?check,
                 ClientQuery (buildQuery (topic options) ?address ?delivery
                   (case edges of [] \<Rightarrow> None | edge # _ \<Rightarrow> Some (node_id edge)))] \<and>
           out = Inl e"
    if "query_check ?client ?check = Inr edges"
      "case edges of [] \<Rightarrow> True | edge # _ \<Rightarrow> node_callbackUrl edge \<noteq> ?address"
    for edges e
    using register_mutation_fails [of G options edges ctx e reg] that r by auto
  have d: "query_any ?client
             (buildQuery (topic options) ?address ?delivery
                (case edges of [] \<Rightarrow> None | edge # _ \<Rightarrow> Some (node_id edge))) = Inr body \<and>
           \<not> spec_containsSubscription body
                (spec_mutationName ?delivery
                   (truthyStr (case edges of [] \<Rightarrow> None | edge # _ \<Rightarrow> Some (node_id edge)))) \<longrightarrow>
           reg' = reg \<and>
           ev = [ClientQuery ?check,
                 ClientQuery (buildQuery (topic options) ?address ?delivery
                   (case edges of [] \<Rightarrow> None | edge # _ \<Rightarrow> Some (node_id edge)))] \<and>
           (out = Inr \<lparr>success = False, result = body\<rparr> \<or> out = Inl TypeError)"
    if "query_check ?client ?check = Inr edges"
      "case edges of [] \<Rightarrow> True | edge # _ \<Rightarrow> node_callbackUrl edge \<noteq> ?address"
    for edges body
  proof
    assume h: "query_any ?client
             (buildQuery (topic options) ?address ?delivery
                (case edges of [] \<Rightarrow> None | edge # _ \<Rightarrow> Some (node_id edge))) = Inr body \<and>
           \<not> spec_containsSubscription body
                (spec_mutationName ?delivery
                   (truthyStr (case edges of [] \<Rightarrow> None | edge # _ \<Rightarrow> Some (node_id edge))))"
    then have "isSuccess body ?delivery
                 (case edges of [] \<Rightarrow> None | edge # _ \<Rightarrow> Some (node_id edge)) = Inr False \<or>
               isSuccess body ?delivery
                 (case edges of [] \<Rightarrow> None | edge # _ \<Rightarrow> Some (node_id edge)) = Inl TypeError"
      using isSuccess_not_contained by blast
    then show "reg' = reg \<and>
           ev = [ClientQuery ?check,
                 ClientQuery (buildQuery (topic options) ?address ?delivery
                   (case edges of [] \<Rightarrow> None | edge # _ \<Rightarrow> Some (node_id edge)))] \<and>
           (out = Inr \<lparr>success = False, result = body\<rparr> \<or> out = Inl TypeError)"
      using register_mutation_answered [of G options edges ctx body reg] that h r by auto
  qed
  show ?thesis
    unfolding Let_def r prod.case
    using a b c d by blast
qed

theorem register_store_unchanged_on_failure_witness:
  "register (answeringClient (Inl (TransportError ''ECONNRESET'')) (Inr createdBody))
     exampleContext [\<lparr>path = ''/old'', topic = ''ORDERS_CREATE'', webhookHandler = ''h0''\<rparr>]
     (exampleOptions ''ORDERS_CREATE'' ''h1'') =
     ([\<lparr>path = ''/old'', topic = ''ORDERS_CREATE'', webhookHandler = ''h0''\<rparr>],
      [ClientQuery (buildCheckQuery ''ORDERS_CREATE'')],
      Inl (TransportError ''ECONNRESET'')) \<and>
   register (answeringClient (Inr []) (Inl (TransportError ''ECONNRESET'')))
     exampleContext [\<lparr>path = ''/old'', topic = ''ORDERS_CREATE'', webhookHandler = ''h0''\<rparr>]
     (exampleOptions ''ORDERS_CREATE'' ''h1'') =
     ([\<lparr>path = ''/old'', topic = ''ORDERS_CREATE'', webhookHandler = ''h0''\<rparr>],
      [ClientQuery (buildCheckQuery ''ORDERS_CREATE''),
       ClientQuery (buildQuery ''ORDERS_CREATE'' ''https://host/cb'' Http None)],
      Inl (TransportError ''ECONNRESET'')) \<and>
   register (answeringClient (Inr []) (Inr rejectedBody))
     exampleContext [\<lparr>path = ''/old'', topic = ''ORDERS_CREATE'', webhookHandler = ''h0''\<rparr>]
     (exampleOptions ''ORDERS_CREATE'' ''h1'') =
     ([\<lparr>path = ''/old'', topic = ''ORDERS_CREATE'', webhookHandler = ''h0''\<rparr>],
      [ClientQuery (buildCheckQuery ''ORDERS_CREATE''),
       ClientQuery (buildQuery ''ORDERS_CREATE'' ''https://host/cb'' Http None)],
      Inr \<lparr>success = False, result = rejectedBody\<rparr>)"
proof -
  let ?reg = "[\<lparr>path = ''/old'', topic = ''ORDERS_CREATE'', webhookHandler = ''h0''\<rparr>]"
  let ?options = "exampleOptions ''ORDERS_CREATE'' ''h1'' :: string RegisterOptions"
  have missing: "\<not> spec_containsSubscription rejectedBody (spec_mutationName Http False)"
    by (simp add: spec_containsSubscription_def spec_hasNode_def spec_node_def
          spec_mutationName_def rejectedBody_def)
  have 1: "register (answeringClient (Inl (TransportError ''ECONNRESET'')) (Inr createdBody))
       exampleContext ?reg ?options =
       (?reg, [ClientQuery (buildCheckQuery ''ORDERS_CREATE'')],
        Inl (TransportError ''ECONNRESET''))"
    using register_store_unchanged_on_failure
      [of "answeringClient (Inl (TransportError ''ECONNRESET'')) (Inr createdBody)"
          ?options exampleContext ?reg]
    by (cases "register (answeringClient (Inl (TransportError ''ECONNRESET'')) (Inr createdBody))
                 exampleContext ?reg ?options")
       (simp add: Let_def answeringClient_def exampleOptions_fields)
  have 2: "register (answeringClient (Inr []) (Inl (TransportError ''ECONNRESET'')))
       exampleContext ?reg ?options =
       (?reg, [ClientQuery (buildCheckQuery ''ORDERS_CREATE''),
               ClientQuery (buildQuery ''ORDERS_CREATE'' ''https://host/cb'' Http None)],
        Inl (TransportError ''ECONNRESET''))"
    using register_store_unchanged_on_failure
      [of "answeringClient (Inr []) (Inl (TransportError ''ECONNRESET''))"
          ?options exampleContext ?reg]
    by (cases "register (answeringClient (Inr []) (Inl (TransportError ''ECONNRESET'')))
                 exampleContext ?reg ?options")
       (simp add: Let_def answeringClient_def exampleOptions_fields exampleOptions_def
          exampleContext_def)
  have 3: "register (answeringClient (Inr []) (Inr rejectedBody)) exampleContext ?reg ?options =
       (?reg, [ClientQuery (buildCheckQuery ''ORDERS_CREATE''),
               ClientQuery (buildQuery ''ORDERS_CREATE'' ''https://host/cb'' Http None)],
        Inr \<lparr>success = False, result = rejectedBody\<rparr>)"
    by (simp add: register_def answeringClient_def exampleOptions_def exampleContext_def
          isSuccess_def hasWebhookSubscription_def truthyStr_def rejectedBody_def)
  show ?thesis
    using 1 2 3 missing
      register_store_unchanged_on_failure
        [of "answeringClient (Inr []) (Inr rejectedBody)" ?options exampleContext ?reg]
    by simp
qed

text \<open>
  C9. The mutation text and the success decision use the same mutation name:
  \<open>buildQuery\<close> returns the mutation text with the name \<open>webhookSubscriptionCreate\<close>
  (no identifier) or \<open>webhookSubscriptionUpdate\<close> (identifier) and the argument
  \<open>callbackUrl\<close> for the HTTP delivery mode, and with the names
  \<open>eventBridgeWebhookSubscriptionCreate\<close> or \<open>eventBridgeWebhookSubscriptionUpdate\<close> and
  the argument \<open>arn\<close> for the event-bus delivery mode; \<open>isSuccess\<close> is true exactly when
  the response contains the node \<open>webhookSubscription\<close> under that same name; and when
  \<open>register\<close> sends the mutation and the transport answers, it reports success exactly
  when the answer contains that node.
\<close>

theorem mutation_name_and_success_node:
  \<open>buildQuery topic' address delivery webhookId =
     mutationText (spec_mutationName delivery (truthyStr webhookId))
       (if truthyStr webhookId then ''id: "'' @ strOf webhookId @ ''"'' else ''topic: '' @ topic')
       (spec_addressArgument delivery) address \<and>
   (isSuccess res delivery webhookId = Inr True) =
     spec_containsSubscription res (spec_mutationName delivery (truthyStr webhookId)) \<and>
   (let client = G (shop options) (accessToken options);
        delivery' = (case deliveryMethod options of None \<Rightarrow> Http | Some m \<Rightarrow> m);
        address' = ''https://'' @ HOST_NAME ctx @ path options
    in \<forall>(edges :: WebhookCheckResponse) body.
         query_check client (buildCheckQuery (topic options)) = Inr edges \<and>
         (case edges of [] \<Rightarrow> True | edge # _ \<Rightarrow> node_callbackUrl edge \<noteq> address') \<and>
         query_any client
           (buildQuery (topic options) address' delivery'
              (case edges of [] \<Rightarrow> None | edge # _ \<Rightarrow> Some (node_id edge))) = Inr body \<longrightarrow>
         (\<exists>r. snd (snd (register G ctx reg options)) = Inr r \<and> success r) =
         spec_containsSubscription body
           (spec_mutationName delivery'
              (truthyStr (case edges of [] \<Rightarrow> None | edge # _ \<Rightarrow> Some (node_id edge)))))\<close>
proof (intro conjI)
  show \<open>buildQuery topic' address delivery webhookId =
     mutationText (spec_mutationName delivery (truthyStr webhookId))
       (if truthyStr webhookId then ''id: "'' @ strOf webhookId @ ''"'' else ''topic: '' @ topic')
       (spec_addressArgument delivery) address\<close>
    by (rule buildQuery_spec)
  show "(isSuccess res delivery webhookId = Inr True) =
     spec_containsSubscription res (spec_mutationName delivery (truthyStr webhookId))"
    by (rule isSuccess_spec)
  have iff: "\<And>body m w. (\<exists>r. (case isSuccess body m w of
                 Inl e \<Rightarrow> Inl e
               | Inr ok \<Rightarrow> Inr \<lparr>success = ok, result = body\<rparr>) = Inr r \<and> success r) =
             (isSuccess body m w = Inr True)"
    by (auto split: sum.splits)
  show "let client = G (shop options) (accessToken options);
        delivery' = (case deliveryMethod options of None \<Rightarrow> Http | Some m \<Rightarrow> m);
        address' = ''https://'' @ HOST_NAME ctx @ path options
    in \<forall>(edges :: WebhookCheckResponse) body.
         query_check client (buildCheckQuery (topic options)) = Inr edges \<and>
         (case edges of [] \<Rightarrow> True | edge # _ \<Rightarrow> node_callbackUrl edge \<noteq> address') \<and>
         query_any client
           (buildQuery (topic options) address' delivery'
              (case edges of [] \<Rightarrow> None | edge # _ \<Rightarrow> Some (node_id edge))) = Inr body \<longrightarrow>
         (\<exists>r. snd (snd (register G ctx reg options)) = Inr r \<and> success r) =
         spec_containsSubscription body
           (spec_mutationName delivery'
              (truthyStr (case edges of [] \<Rightarrow> None | edge # _ \<Rightarrow> Some (node_id edge))))"
    unfolding Let_def
  proof (intro allI impI)
    fix edges :: WebhookCheckResponse and body
    let ?delivery = "case deliveryMethod options of None \<Rightarrow> Http | Some m \<Rightarrow> m"
    let ?id = "case edges of [] \<Rightarrow> None | edge # _ \<Rightarrow> Some (node_id edge)"
    assume a: "query_check (G (shop options) (accessToken options))
          (buildCheckQuery (topic options)) = Inr edges \<and>
       (case edges of [] \<Rightarrow> True
        | edge # _ \<Rightarrow> node_callbackUrl edge \<noteq> ''https://'' @ HOST_NAME ctx @ path options) \<and>
       query_any (G (shop options) (accessToken options))
         (buildQuery (topic options) (''https://'' @ HOST_NAME ctx @ path options) ?delivery ?id) =
         Inr body"
    then have "snd (snd (register G ctx reg options)) =
        (case isSuccess body ?delivery ?id of
           Inl e \<Rightarrow> Inl e
         | Inr ok \<Rightarrow> Inr \<lparr>success = ok, result = body\<rparr>)"
      using register_mutation_answered [of G options edges ctx body reg] by simp
    then show "(\<exists>r. snd (snd (register G ctx reg options)) = Inr r \<and> success r) =
        spec_containsSubscription body (spec_mutationName ?delivery (truthyStr ?id))"
      using iff [of body ?delivery ?id] isSuccess_spec [of body ?delivery ?id] by simp
  qed
qed

theorem mutation_name_and_success_node_witness:
  "buildQuery ''ORDERS_CREATE'' ''https://host/cb'' Http None =
     mutationText ''webhookSubscriptionCreate'' ''topic: ORDERS_CREATE'' ''callbackUrl''
       ''https://host/cb'' \<and>
   buildQuery ''ORDERS_CREATE'' ''arn:aws:events:us-east-1::event-source/aws.partner/shopify.com/1/cb''
     EventBridge (Some ''gid://shopify/WebhookSubscription/1'') =
     mutationText ''eventBridgeWebhookSubscriptionUpdate''
       (''id: '' @ [CHR 0x22] @ ''gid://shopify/WebhookSubscription/1'' @ [CHR 0x22]) ''arn''
       ''arn:aws:events:us-east-1::event-source/aws.partner/shopify.com/1/cb'' \<and>
   isSuccess createdBody Http None = Inr True \<and>
   isSuccess createdBody EventBridge None \<noteq> Inr True \<and>
   (\<exists>r. snd (snd (register (answeringClient (Inr []) (Inr createdBody)) exampleContext []
                     (exampleOptions ''ORDERS_CREATE'' ''h''))) = Inr r \<and> success r)"
proof -
  have c: "spec_containsSubscription createdBody ''webhookSubscriptionCreate''"
    by (simp add: spec_containsSubscription_def spec_hasNode_def spec_node_def createdBody_def)
  have n: "\<not> spec_containsSubscription createdBody ''eventBridgeWebhookSubscriptionCreate''"
    by (simp add: spec_containsSubscription_def spec_hasNode_def spec_node_def createdBody_def)
  show ?thesis
    using mutation_name_and_success_node
      [of "''ORDERS_CREATE''" "''https://host/cb''" Http None createdBody
          "answeringClient (Inr []) (Inr createdBody)" "exampleOptions ''ORDERS_CREATE'' ''h''"
          exampleContext "[]"]
      mutation_name_and_success_node
        [of "''ORDERS_CREATE''"
            "''arn:aws:events:us-east-1::event-source/aws.partner/shopify.com/1/cb''"
            EventBridge "Some ''gid://shopify/WebhookSubscription/1''" createdBody
            "answeringClient (Inr []) (Inr createdBody)" "exampleOptions ''ORDERS_CREATE'' ''h''"
            exampleContext "[]"]
      mutation_name_and_success_node
        [of "''ORDERS_CREATE''" "''https://host/cb''" EventBridge None createdBody
            "answeringClient (Inr []) (Inr createdBody)" "exampleOptions ''ORDERS_CREATE'' ''h''"
            exampleContext "[]"]
      c n
    by (simp add: Let_def spec_mutationName_def spec_addressArgument_def truthyStr_def strOf_def
          answeringClient_def exampleOptions_def exampleContext_def)
qed

text \<open>
  C4. When one or more of the three required headers is absent (no header name equals it
  up to case), \<open>process\<close> throws an InvalidWebhookError whose message names every absent
  header, and it has made no call before: no HMAC was computed, no comparison was made,
  no handler was called.
\<close>

theorem process_missing_header:
  assumes "absent (Hmac H) hdrs \<or> absent (Topic H) hdrs \<or> absent (Domain' H) hdrs"
  shows "\<exists>msg. process ctx H reg hdrs body = ([], Inl (InvalidWebhookError msg)) \<and>
           (absent (Hmac H) hdrs \<longrightarrow> names msg (Hmac H)) \<and>
           (absent (Topic H) hdrs \<longrightarrow> names msg (Topic H)) \<and>
           (absent (Domain' H) hdrs \<longrightarrow> names msg (Domain' H))"
proof -
  obtain hmac t d where r: "read_headers H hdrs (None, None, None) = (hmac, t, d)"
    by (cases "read_headers H hdrs (None, None, None)") auto
  let ?m = "missingHeaders H (hmac, t, d)"
  have h: "absent (Hmac H) hdrs \<Longrightarrow> Hmac H \<in> set ?m"
    using read_headers_absent_hmac [of H hdrs None None None] r
    by (simp add: missingHeaders_def truthyStr_def)
  have t: "absent (Topic H) hdrs \<Longrightarrow> Topic H \<in> set ?m"
    using read_headers_absent_topic [of H hdrs None None None] r
    by (simp add: missingHeaders_def truthyStr_def)
  have d: "absent (Domain' H) hdrs \<Longrightarrow> Domain' H \<in> set ?m"
    using read_headers_absent_domain [of H hdrs None None None] r
    by (simp add: missingHeaders_def truthyStr_def)
  from assms h t d have "?m \<noteq> []" by auto
  then have "process ctx H reg hdrs body = ([], Inl (InvalidWebhookError (missingMessage ?m)))"
    using process_missing [of H hdrs ctx reg body] r by simp
  then show ?thesis
    using h t d missingMessage_names by blast
qed

theorem process_missing_header_witness:
  "absent (Topic shopifyHeader)
     [(''X-Shopify-Hmac-Sha256'', ''VnKUjZsLuN5iZWjn5EntcBVCF9kMN43LglzCE1/GSeY=''),
      (''x-shopify-shop-domain'', ''shop.example.com'')] \<and>
   process exampleContext shopifyHeader
     [\<lparr>path = ''/cb'', topic = ''ORDERS_CREATE'', webhookHandler = ''H''\<rparr>]
     [(''X-Shopify-Hmac-Sha256'', ''VnKUjZsLuN5iZWjn5EntcBVCF9kMN43LglzCE1/GSeY=''),
      (''x-shopify-shop-domain'', ''shop.example.com'')] exampleBody =
     ([], Inl (InvalidWebhookError
       ''Missing one or more of the required HTTP headers to process webhooks: [X-Shopify-Topic]'')) \<and>
   process exampleContext shopifyHeader
     [\<lparr>path = ''/cb'', topic = ''ORDERS_CREATE'', webhookHandler = ''H''\<rparr>] [] exampleBody =
     ([], Inl (InvalidWebhookError
       ''Missing one or more of the required HTTP headers to process webhooks: [X-Shopify-Hmac-Sha256, X-Shopify-Topic, X-Shopify-Shop-Domain]''))"
proof -
  let ?hdrs = "[(''X-Shopify-Hmac-Sha256'', ''VnKUjZsLuN5iZWjn5EntcBVCF9kMN43LglzCE1/GSeY=''),
                (''x-shopify-shop-domain'', ''shop.example.com'')]"
  let ?reg = "[\<lparr>path = ''/cb'', topic = ''ORDERS_CREATE'', webhookHandler = ''H''\<rparr>]"
  have a: "absent (Topic shopifyHeader) ?hdrs"
    by (simp add: absent_def shopifyHeader_def lower_names)
  have b: "absent (Hmac shopifyHeader) []"
    by (simp add: absent_def)
  have r: "read_headers shopifyHeader ?hdrs (None, None, None) =
             (Some ''VnKUjZsLuN5iZWjn5EntcBVCF9kMN43LglzCE1/GSeY='', None, Some ''shop.example.com'')"
    by (simp add: shopifyHeader_def lower_names)
  have m1: "missingHeaders shopifyHeader
              (Some ''VnKUjZsLuN5iZWjn5EntcBVCF9kMN43LglzCE1/GSeY='', None, Some ''shop.example.com'') =
            [''X-Shopify-Topic'']"
    by (simp add: missingHeaders_def truthyStr_def shopifyHeader_def)
  have m2: "missingHeaders shopifyHeader (None, None, None) =
            [''X-Shopify-Hmac-Sha256'', ''X-Shopify-Topic'', ''X-Shopify-Shop-Domain'']"
    by (simp add: missingHeaders_def truthyStr_def shopifyHeader_def)
  obtain msg1 where 1:
    "process exampleContext shopifyHeader ?reg ?hdrs exampleBody = ([], Inl (InvalidWebhookError msg1))"
    using process_missing_header [of shopifyHeader ?hdrs exampleContext ?reg exampleBody] a
    by blast
  obtain msg2 where 2:
    "process exampleContext shopifyHeader ?reg [] exampleBody = ([], Inl (InvalidWebhookError msg2))"
    using process_missing_header [of shopifyHeader "[]" exampleContext ?reg exampleBody] b
    by blast
  have "msg1 = missingMessage [''X-Shopify-Topic'']"
    using 1 process_missing [of shopifyHeader ?hdrs exampleContext ?reg exampleBody]
    by (simp only: r m1) simp
  then have 3: "msg1 =
      ''Missing one or more of the required HTTP headers to process webhooks: [X-Shopify-Topic]''"
    by (simp add: missingMessage_def)
  have "msg2 = missingMessage [''X-Shopify-Hmac-Sha256'', ''X-Shopify-Topic'', ''X-Shopify-Shop-Domain'']"
    using 2 process_missing [of shopifyHeader "[]" exampleContext ?reg exampleBody]
    by (simp only: read_headers.simps m2) simp
  then have 4: "msg2 =
      ''Missing one or more of the required HTTP headers to process webhooks: [X-Shopify-Hmac-Sha256, X-Shopify-Topic, X-Shopify-Shop-Domain]''"
    by (simp add: missingMessage_def)
  show ?thesis using a 1 2 3 4 by simp
qed

text \<open>
  C5, as stated: whenever all three required headers are present and the provided
  signature differs from the HMAC computed from the body and the secret, \<open>process\<close>
  returns "forbidden" and calls no handler. This fails in two ways. A header that is
  present with an empty value counts as missing, and \<open>process\<close> throws: first input, with
  a wrong signature and the empty string as domain. And \<open>process\<close> computes the HMAC from
  the UTF-8 encoding of the decoded body, not from the bytes of the body: second input,
  with the body of the single byte \<open>0xFF\<close> and a signature that is not the HMAC of that
  byte; the handler is called and the status is "ok".
\<close>

theorem wrong_signature_not_forbidden:
  "(\<not> absent (Hmac shopifyHeader)
        (exampleHeaders ''bm90IHRoZSBzaWduYXR1cmU='' ''orders/create'' '''') \<and>
    \<not> absent (Topic shopifyHeader)
        (exampleHeaders ''bm90IHRoZSBzaWduYXR1cmU='' ''orders/create'' '''') \<and>
    \<not> absent (Domain' shopifyHeader)
        (exampleHeaders ''bm90IHRoZSBzaWduYXR1cmU='' ''orders/create'' '''') \<and>
    ''bm90IHRoZSBzaWduYXR1cmU='' \<noteq>
      spec_signature (API_SECRET_KEY exampleContext) (map unat exampleBody) \<and>
    process exampleContext shopifyHeader
      [\<lparr>path = ''/cb'', topic = ''ORDERS_CREATE'', webhookHandler = ''H''\<rparr>]
      (exampleHeaders ''bm90IHRoZSBzaWduYXR1cmU='' ''orders/create'' '''') exampleBody =
      ([], Inl (InvalidWebhookError
        ''Missing one or more of the required HTTP headers to process webhooks: [X-Shopify-Shop-Domain]''))) \<and>
   (\<not> absent (Hmac shopifyHeader)
        (exampleHeaders ''7aF8zZeO/GCpcUBaxR3+liS03m3MZD4uLNLoAK/MUyQ='' ''orders/create''
           ''shop.example.com'') \<and>
    \<not> absent (Topic shopifyHeader)
        (exampleHeaders ''7aF8zZeO/GCpcUBaxR3+liS03m3MZD4uLNLoAK/MUyQ='' ''orders/create''
           ''shop.example.com'') \<and>
    \<not> absent (Domain' shopifyHeader)
        (exampleHeaders ''7aF8zZeO/GCpcUBaxR3+liS03m3MZD4uLNLoAK/MUyQ='' ''orders/create''
           ''shop.example.com'') \<and>
    ''7aF8zZeO/GCpcUBaxR3+liS03m3MZD4uLNLoAK/MUyQ='' \<noteq>
      spec_signature (API_SECRET_KEY exampleContext) (map unat [0xFF :: byte]) \<and>
    process exampleContext shopifyHeader
      [\<lparr>path = ''/cb'', topic = ''ORDERS_CREATE'', webhookHandler = ''H''\<rparr>]
      (exampleHeaders ''7aF8zZeO/GCpcUBaxR3+liS03m3MZD4uLNLoAK/MUyQ='' ''orders/create''
         ''shop.example.com'')
      [0xFF] =
      ([CreateHmac, SafeCompare, HandlerCall ''H'' ''ORDERS_CREATE'' ''shop.example.com'' [0xFF]],
       Inr \<lparr>statusCode = Ok, headers = []\<rparr>))"
proof -
  have 1: "''bm90IHRoZSBzaWduYXR1cmU='' \<noteq>
      spec_signature (API_SECRET_KEY exampleContext) (map unat exampleBody)"
    by (simp add: spec_signature_exampleBody)
  have 2: "process exampleContext shopifyHeader
      [\<lparr>path = ''/cb'', topic = ''ORDERS_CREATE'', webhookHandler = ''H''\<rparr>]
      (exampleHeaders ''bm90IHRoZSBzaWduYXR1cmU='' ''orders/create'' '''') exampleBody =
      ([], Inl (InvalidWebhookError
        ''Missing one or more of the required HTTP headers to process webhooks: [X-Shopify-Shop-Domain]''))"
    by (rule process_empty_domain) simp_all
  have 3: "''7aF8zZeO/GCpcUBaxR3+liS03m3MZD4uLNLoAK/MUyQ='' \<noteq>
      spec_signature (API_SECRET_KEY exampleContext) (map unat [0xFF :: byte])"
    by (simp add: exampleContext_def spec_signature_ff)
  have 4: "process exampleContext shopifyHeader
      [\<lparr>path = ''/cb'', topic = ''ORDERS_CREATE'', webhookHandler = ''H''\<rparr>]
      (exampleHeaders ''7aF8zZeO/GCpcUBaxR3+liS03m3MZD4uLNLoAK/MUyQ='' ''orders/create''
         ''shop.example.com'')
      [0xFF] =
      ([CreateHmac, SafeCompare, HandlerCall ''H'' ''ORDERS_CREATE'' ''shop.example.com'' [0xFF]],
       Inr \<lparr>statusCode = Ok, headers = []\<rparr>)"
    by (rule process_ff_dispatched)
  show ?thesis
    using 1 2 3 4 by (simp only: exampleHeaders_present simp_thms)
qed

text \<open>
  C5, amended: whenever \<open>process\<close> reads all three required headers with non-empty
  values and the signature read differs from the HMAC computed from the secret and the
  UTF-8 encoding of the decoded body, it returns "forbidden" with no headers, after
  computing the HMAC and comparing; no handler is called. For a body that is well-formed
  UTF-8 that HMAC is the HMAC computed from the secret and the bytes of the body, so then
  the claim holds as it was stated.
\<close>

theorem process_wrong_signature_forbidden:
  assumes "read_headers H hdrs (None, None, None) = (Some s, Some t, Some d)"
    and "s \<noteq> []" and "t \<noteq> []" and "d \<noteq> []"
  shows "(s \<noteq> spec_signature (API_SECRET_KEY ctx) (utf8_encode (Buffer_toString_utf8 body)) \<longrightarrow>
            process ctx H reg hdrs body =
              ([CreateHmac, SafeCompare], Inr \<lparr>statusCode = Forbidden, headers = []\<rparr>)) \<and>
         (utf8_wellformed (map unat body) \<and>
          s \<noteq> spec_signature (API_SECRET_KEY ctx) (map unat body) \<longrightarrow>
            process ctx H reg hdrs body =
              ([CreateHmac, SafeCompare], Inr \<lparr>statusCode = Forbidden, headers = []\<rparr>))"
proof (intro conjI impI)
  assume "s \<noteq> spec_signature (API_SECRET_KEY ctx) (utf8_encode (Buffer_toString_utf8 body))"
  then have "s \<noteq> generatedHash ctx body" by (simp add: generatedHash_spec)
  with assms show "process ctx H reg hdrs body =
      ([CreateHmac, SafeCompare], Inr \<lparr>statusCode = Forbidden, headers = []\<rparr>)"
    by (rule process_mismatch)
next
  assume a: "utf8_wellformed (map unat body) \<and>
             s \<noteq> spec_signature (API_SECRET_KEY ctx) (map unat body)"
  then have "utf8_encode (Buffer_toString_utf8 body) = map unat body"
    using Buffer_roundtrip by blast
  with a have "s \<noteq> generatedHash ctx body" by (simp add: generatedHash_spec)
  with assms show "process ctx H reg hdrs body =
      ([CreateHmac, SafeCompare], Inr \<lparr>statusCode = Forbidden, headers = []\<rparr>)"
    by (rule process_mismatch)
qed

theorem process_wrong_signature_forbidden_witness:
  "process exampleContext shopifyHeader
     [\<lparr>path = ''/cb'', topic = ''ORDERS_CREATE'', webhookHandler = ''H''\<rparr>]
     (exampleHeaders ''bm90IHRoZSBzaWduYXR1cmU='' ''orders/create'' ''shop.example.com'')
     exampleBody =
     ([CreateHmac, SafeCompare], Inr \<lparr>statusCode = Forbidden, headers = []\<rparr>) \<and>
   process exampleContext shopifyHeader
     [\<lparr>path = ''/cb'', topic = ''ORDERS_CREATE'', webhookHandler = ''H''\<rparr>]
     (exampleHeaders ''YsclCsKJnxWATtvhU4bnOghQ3HDxvJkWvcaDwVXFjaQ='' ''orders/create''
        ''shop.example.com'')
     [0xFF] =
     ([CreateHmac, SafeCompare], Inr \<lparr>statusCode = Forbidden, headers = []\<rparr>)"
proof -
  have w: "utf8_wellformed (map unat exampleBody)"
    by (simp add: exampleBody_def)
  have n: "''bm90IHRoZSBzaWduYXR1cmU='' \<noteq>
      spec_signature (API_SECRET_KEY exampleContext) (map unat exampleBody)"
    by (simp add: spec_signature_exampleBody)
  have m: "''YsclCsKJnxWATtvhU4bnOghQ3HDxvJkWvcaDwVXFjaQ='' \<noteq>
      spec_signature (API_SECRET_KEY exampleContext) (utf8_encode (Buffer_toString_utf8 [0xFF]))"
    using generatedHash_ff by (simp add: generatedHash_spec)
  have 1: "process exampleContext shopifyHeader
     [\<lparr>path = ''/cb'', topic = ''ORDERS_CREATE'', webhookHandler = ''H''\<rparr>]
     (exampleHeaders ''bm90IHRoZSBzaWduYXR1cmU='' ''orders/create'' ''shop.example.com'')
     exampleBody =
     ([CreateHmac, SafeCompare], Inr \<lparr>statusCode = Forbidden, headers = []\<rparr>)"
    using process_wrong_signature_forbidden
      [where H = shopifyHeader
         and hdrs = "exampleHeaders ''bm90IHRoZSBzaWduYXR1cmU='' ''orders/create''
                       ''shop.example.com''"
         and s = "''bm90IHRoZSBzaWduYXR1cmU=''" and t = "''orders/create''"
         and d = "''shop.example.com''" and ctx = exampleContext and body = exampleBody
         and reg = "[\<lparr>path = ''/cb'', topic = ''ORDERS_CREATE'', webhookHandler = ''H''\<rparr>]",
       OF read_exampleHeaders]
      w n
    by simp
  have 2: "process exampleContext shopifyHeader
     [\<lparr>path = ''/cb'', topic = ''ORDERS_CREATE'', webhookHandler = ''H''\<rparr>]
     (exampleHeaders ''YsclCsKJnxWATtvhU4bnOghQ3HDxvJkWvcaDwVXFjaQ='' ''orders/create''
        ''shop.example.com'')
     [0xFF] =
     ([CreateHmac, SafeCompare], Inr \<lparr>statusCode = Forbidden, headers = []\<rparr>)"
    using process_wrong_signature_forbidden
      [where H = shopifyHeader
         and hdrs = "exampleHeaders ''YsclCsKJnxWATtvhU4bnOghQ3HDxvJkWvcaDwVXFjaQ=''
                       ''orders/create'' ''shop.example.com''"
         and s = "''YsclCsKJnxWATtvhU4bnOghQ3HDxvJkWvcaDwVXFjaQ=''" and t = "''orders/create''"
         and d = "''shop.example.com''" and ctx = exampleContext and body = "[0xFF]"
         and reg = "[\<lparr>path = ''/cb'', topic = ''ORDERS_CREATE'', webhookHandler = ''H''\<rparr>]",
       OF read_exampleHeaders]
      m
    by simp
  show ?thesis using 1 2 by (rule conjI)
qed

text \<open>
  C6, as stated: whenever all three required headers are present, the signature matches
  and no entry is registered for the canonical topic, \<open>process\<close> returns "forbidden".
  This fails for a header that is present with an empty value: \<open>process\<close> counts it as
  missing and throws. Here the registry is empty, the signature is the right one and the
  domain is the empty string.
\<close>

theorem unknown_topic_empty_header_throws:
  "\<not> absent (Hmac shopifyHeader)
        (exampleHeaders ''VnKUjZsLuN5iZWjn5EntcBVCF9kMN43LglzCE1/GSeY='' ''orders/create'' '''') \<and>
   \<not> absent (Topic shopifyHeader)
        (exampleHeaders ''VnKUjZsLuN5iZWjn5EntcBVCF9kMN43LglzCE1/GSeY='' ''orders/create'' '''') \<and>
   \<not> absent (Domain' shopifyHeader)
        (exampleHeaders ''VnKUjZsLuN5iZWjn5EntcBVCF9kMN43LglzCE1/GSeY='' ''orders/create'' '''') \<and>
   ''VnKUjZsLuN5iZWjn5EntcBVCF9kMN43LglzCE1/GSeY='' = generatedHash exampleContext exampleBody \<and>
   process exampleContext shopifyHeader ([] :: string WebhookRegistryEntry list)
     (exampleHeaders ''VnKUjZsLuN5iZWjn5EntcBVCF9kMN43LglzCE1/GSeY='' ''orders/create'' '''')
     exampleBody =
     ([], Inl (InvalidWebhookError
       ''Missing one or more of the required HTTP headers to process webhooks: [X-Shopify-Shop-Domain]''))"
  by (simp add: exampleHeaders_present generatedHash_exampleBody process_empty_domain)

text \<open>
  C6, amended: whenever \<open>process\<close> reads all three required headers with non-empty
  values and no entry of the registry has the canonical form of the topic (its upper case
  with every \<open>/\<close> replaced by \<open>_\<close>) as its topic, it returns the same as for a wrong
  signature: "forbidden" with no headers, after computing the HMAC and comparing; no
  handler is called. This holds whatever the signature read is, so in particular when it
  matches.
\<close>

theorem process_unknown_topic_forbidden:
  "read_headers H hdrs (None, None, None) = (Some s, Some t, Some d) \<Longrightarrow>
   s \<noteq> [] \<Longrightarrow> t \<noteq> [] \<Longrightarrow> d \<noteq> [] \<Longrightarrow>
   \<forall>entry\<in>set reg. Some (topic entry) \<noteq> map_option replace_slash (toUpperCase t) \<Longrightarrow>
   process ctx H reg hdrs body =
     ([CreateHmac, SafeCompare], Inr \<lparr>statusCode = Forbidden, headers = []\<rparr>)"
  by (rule process_unknown_topic)

theorem process_unknown_topic_forbidden_witness:
  "''VnKUjZsLuN5iZWjn5EntcBVCF9kMN43LglzCE1/GSeY='' =
     spec_signature (API_SECRET_KEY exampleContext) (map unat exampleBody) \<and>
   process exampleContext shopifyHeader
     [\<lparr>path = ''/cb'', topic = ''PRODUCTS_UPDATE'', webhookHandler = ''H''\<rparr>]
     (exampleHeaders ''VnKUjZsLuN5iZWjn5EntcBVCF9kMN43LglzCE1/GSeY='' ''orders/create''
        ''shop.example.com'')
     exampleBody =
     ([CreateHmac, SafeCompare], Inr \<lparr>statusCode = Forbidden, headers = []\<rparr>)"
proof
  show "''VnKUjZsLuN5iZWjn5EntcBVCF9kMN43LglzCE1/GSeY='' =
     spec_signature (API_SECRET_KEY exampleContext) (map unat exampleBody)"
    by (simp only: spec_signature_exampleBody)
  show "process exampleContext shopifyHeader
     [\<lparr>path = ''/cb'', topic = ''PRODUCTS_UPDATE'', webhookHandler = ''H''\<rparr>]
     (exampleHeaders ''VnKUjZsLuN5iZWjn5EntcBVCF9kMN43LglzCE1/GSeY='' ''orders/create''
        ''shop.example.com'')
     exampleBody =
     ([CreateHmac, SafeCompare], Inr \<lparr>statusCode = Forbidden, headers = []\<rparr>)"
  proof (rule process_unknown_topic_forbidden)
    show "read_headers shopifyHeader
          (exampleHeaders ''VnKUjZsLuN5iZWjn5EntcBVCF9kMN43LglzCE1/GSeY='' ''orders/create''
             ''shop.example.com'') (None, None, None) =
        (Some ''VnKUjZsLuN5iZWjn5EntcBVCF9kMN43LglzCE1/GSeY='', Some ''orders/create'',
         Some ''shop.example.com'')"
      by (rule read_exampleHeaders)
    show "''VnKUjZsLuN5iZWjn5EntcBVCF9kMN43LglzCE1/GSeY='' \<noteq> []" by simp
    show "''orders/create'' \<noteq> []" by simp
    show "''shop.example.com'' \<noteq> []" by simp
    show "\<forall>entry\<in>set [\<lparr>path = ''/cb'', topic = ''PRODUCTS_UPDATE'', webhookHandler = ''H''\<rparr>].
          Some (topic entry) \<noteq> map_option replace_slash (toUpperCase ''orders/create'')"
      by (simp add: canonical_orders_create del: toUpperCase.simps)
  qed
qed

text \<open>
  C1, as stated: after \<open>register\<close> was called with the topic \<open>orders/create\<close> and
  succeeded, a request with the topic header \<open>orders/create\<close>, the right signature over
  \<open>{"id":1}\<close> and the domain \<open>shop.example.com\<close> calls the handler and returns "ok".
  This fails: \<open>register\<close> stores the topic as it was given, and \<open>process\<close> looks for
  an entry whose topic is the canonical form \<open>ORDERS_CREATE\<close>; it finds none and returns
  "forbidden" without calling the handler.
\<close>

theorem register_raw_topic_not_dispatched:
  "register (answeringClient (Inr []) (Inr createdBody)) exampleContext []
     (exampleOptions ''orders/create'' ''H'') =
     ([\<lparr>path = ''/cb'', topic = ''orders/create'', webhookHandler = ''H''\<rparr>],
      [ClientQuery (buildCheckQuery ''orders/create''),
       ClientQuery (buildQuery ''orders/create'' ''https://host/cb'' Http None)],
      Inr \<lparr>success = True, result = createdBody\<rparr>) \<and>
   generatedHash exampleContext exampleBody = ''VnKUjZsLuN5iZWjn5EntcBVCF9kMN43LglzCE1/GSeY='' \<and>
   process exampleContext shopifyHeader
     [\<lparr>path = ''/cb'', topic = ''orders/create'', webhookHandler = ''H''\<rparr>]
     (exampleHeaders ''VnKUjZsLuN5iZWjn5EntcBVCF9kMN43LglzCE1/GSeY='' ''orders/create''
        ''shop.example.com'')
     exampleBody =
     ([CreateHmac, SafeCompare], Inr \<lparr>statusCode = Forbidden, headers = []\<rparr>)"
proof (intro conjI)
  show "register (answeringClient (Inr []) (Inr createdBody)) exampleContext []
     (exampleOptions ''orders/create'' ''H'') =
     ([\<lparr>path = ''/cb'', topic = ''orders/create'', webhookHandler = ''H''\<rparr>],
      [ClientQuery (buildCheckQuery ''orders/create''),
       ClientQuery (buildQuery ''orders/create'' ''https://host/cb'' Http None)],
      Inr \<lparr>success = True, result = createdBody\<rparr>)"
    by (simp add: register_example)
  show "generatedHash exampleContext exampleBody = ''VnKUjZsLuN5iZWjn5EntcBVCF9kMN43LglzCE1/GSeY=''"
    by (rule generatedHash_exampleBody)
  show "process exampleContext shopifyHeader
     [\<lparr>path = ''/cb'', topic = ''orders/create'', webhookHandler = ''H''\<rparr>]
     (exampleHeaders ''VnKUjZsLuN5iZWjn5EntcBVCF9kMN43LglzCE1/GSeY='' ''orders/create''
        ''shop.example.com'')
     exampleBody =
     ([CreateHmac, SafeCompare], Inr \<lparr>statusCode = Forbidden, headers = []\<rparr>)"
  proof (rule process_unknown_topic)
    show "read_headers shopifyHeader
          (exampleHeaders ''VnKUjZsLuN5iZWjn5EntcBVCF9kMN43LglzCE1/GSeY='' ''orders/create''
             ''shop.example.com'') (None, None, None) =
        (Some ''VnKUjZsLuN5iZWjn5EntcBVCF9kMN43LglzCE1/GSeY='', Some ''orders/create'',
         Some ''shop.example.com'')"
      by (rule read_exampleHeaders)
    show "''VnKUjZsLuN5iZWjn5EntcBVCF9kMN43LglzCE1/GSeY='' \<noteq> []" by simp
    show "''orders/create'' \<noteq> []" by simp
    show "''shop.example.com'' \<noteq> []" by simp
    show "\<forall>entry\<in>set [\<lparr>path = ''/cb'', topic = ''orders/create'', webhookHandler = ''H''\<rparr>].
          Some (topic entry) \<noteq> map_option replace_slash (toUpperCase ''orders/create'')"
      by (simp add: canonical_orders_create del: toUpperCase.simps)
  qed
qed

text \<open>
  C1, amended: if \<open>register\<close> is called with the topic \<open>ORDERS_CREATE\<close> (the canonical
  form), a handler H and the path \<open>/cb\<close> on the host \<open>host\<close>, the existence check
  returns no subscription and the answer to the mutation contains the expected success
  node, then \<open>register\<close> reports success, and a following \<open>process\<close> call on the new
  registry whose headers carry the signature that \<open>process\<close> computes for the body, the
  topic \<open>orders/create\<close> and the domain \<open>shop.example.com\<close> calls H with
  \<open>("ORDERS_CREATE", "shop.example.com", body)\<close> and returns "ok". This holds for every
  body, so for the bytes of \<open>{"id":1}\<close>, and for all header names that are not empty and
  differ from one another up to case.
\<close>

theorem register_then_process_dispatches:
  assumes names: "Hmac H \<noteq> []" "Topic H \<noteq> []" "Domain' H \<noteq> []"
      "distinct [toLowerCase (Hmac H), toLowerCase (Topic H), toLowerCase (Domain' H)]"
    and options: "topic options = ''ORDERS_CREATE''" "path options = ''/cb''"
      "HOST_NAME ctx = ''host''"
    and noSubscription:
      "query_check (G (shop options) (accessToken options)) (buildCheckQuery ''ORDERS_CREATE'') =
         Inr []"
    and answer:
      "query_any (G (shop options) (accessToken options))
         (buildQuery ''ORDERS_CREATE'' ''https://host/cb''
            (case deliveryMethod options of None \<Rightarrow> Http | Some m \<Rightarrow> m) None) = Inr answer"
    and node:
      "spec_containsSubscription answer
         (spec_mutationName (case deliveryMethod options of None \<Rightarrow> Http | Some m \<Rightarrow> m) False)"
  shows "snd (snd (register G ctx reg options)) = Inr \<lparr>success = True, result = answer\<rparr> \<and>
         process ctx H (fst (register G ctx reg options))
           [(Hmac H, generatedHash ctx body), (Topic H, ''orders/create''),
            (Domain' H, ''shop.example.com'')] body =
           ([CreateHmac, SafeCompare,
             HandlerCall (webhookHandler options) ''ORDERS_CREATE'' ''shop.example.com'' body],
            Inr \<lparr>statusCode = Ok, headers = []\<rparr>)"
proof -
  let ?delivery = "case deliveryMethod options of None \<Rightarrow> Http | Some m \<Rightarrow> m"
  let ?entry = "\<lparr>path = ''/cb'', topic = ''ORDERS_CREATE'',
                 webhookHandler = webhookHandler options\<rparr>"
  let ?reg = "filter (\<lambda>item. topic item \<noteq> ''ORDERS_CREATE'') reg @ [?entry]"
  have ok: "isSuccess answer ?delivery None = Inr True"
    using node isSuccess_spec [of answer ?delivery None] by (simp add: truthyStr_def)
  have r: "register G ctx reg options =
             (?reg,
              [ClientQuery (buildCheckQuery ''ORDERS_CREATE''),
               ClientQuery (buildQuery ''ORDERS_CREATE'' ''https://host/cb'' ?delivery None)],
              Inr \<lparr>success = True, result = answer\<rparr>)"
    using register_mutation_answered [of G options "[]" ctx answer reg]
      noSubscription answer ok options
    by simp
  have "process ctx H ?reg
          [(Hmac H, generatedHash ctx body), (Topic H, ''orders/create''),
           (Domain' H, ''shop.example.com'')] body =
        ([CreateHmac, SafeCompare,
          HandlerCall (webhookHandler ?entry) ''ORDERS_CREATE'' ''shop.example.com'' body],
         Inr \<lparr>statusCode = Ok, headers = []\<rparr>)"
  proof (rule process_dispatch)
    show "read_headers H
            [(Hmac H, generatedHash ctx body), (Topic H, ''orders/create''),
             (Domain' H, ''shop.example.com'')] (None, None, None) =
          (Some (generatedHash ctx body), Some ''orders/create'', Some ''shop.example.com'')"
      using names by (rule read_headers_three)
    show "generatedHash ctx body \<noteq> []" by (rule generatedHash_nonempty)
    show "''orders/create'' \<noteq> []" by simp
    show "''shop.example.com'' \<noteq> []" by simp
    show "generatedHash ctx body = generatedHash ctx body" by (rule refl)
    show "map_option replace_slash (toUpperCase ''orders/create'') = Some ''ORDERS_CREATE''"
      by (rule canonical_orders_create)
    show "find (\<lambda>entry. topic entry = ''ORDERS_CREATE'') ?reg = Some ?entry"
      by (rule find_registered)
  qed
  then show ?thesis
    by (simp add: r)
qed

theorem register_then_process_dispatches_witness:
  "snd (snd (register (answeringClient (Inr []) (Inr createdBody)) exampleContext []
               (exampleOptions ''ORDERS_CREATE'' ''H''))) =
     Inr \<lparr>success = True, result = createdBody\<rparr> \<and>
   process exampleContext shopifyHeader
     (fst (register (answeringClient (Inr []) (Inr createdBody)) exampleContext []
             (exampleOptions ''ORDERS_CREATE'' ''H'')))
     [(''X-Shopify-Hmac-Sha256'', ''VnKUjZsLuN5iZWjn5EntcBVCF9kMN43LglzCE1/GSeY=''),
      (''X-Shopify-Topic'', ''orders/create''),
      (''X-Shopify-Shop-Domain'', ''shop.example.com'')]
     exampleBody =
     ([CreateHmac, SafeCompare,
       HandlerCall ''H'' ''ORDERS_CREATE'' ''shop.example.com'' exampleBody],
      Inr \<lparr>statusCode = Ok, headers = []\<rparr>)"
proof -
  have n: "Hmac shopifyHeader \<noteq> []" "Topic shopifyHeader \<noteq> []" "Domain' shopifyHeader \<noteq> []"
    by (simp_all add: shopifyHeader_def)
  have d: "distinct [toLowerCase (Hmac shopifyHeader), toLowerCase (Topic shopifyHeader),
                     toLowerCase (Domain' shopifyHeader)]"
    by (simp add: shopifyHeader_def lower_names)
  have o: "topic (exampleOptions ''ORDERS_CREATE'' ''H'') = ''ORDERS_CREATE''"
    "path (exampleOptions ''ORDERS_CREATE'' ''H'') = ''/cb''" "HOST_NAME exampleContext = ''host''"
    by (simp_all add: exampleOptions_def exampleContext_def)
  have c: "query_check
             (answeringClient (Inr []) (Inr createdBody)
                (shop (exampleOptions ''ORDERS_CREATE'' ''H''))
                (accessToken (exampleOptions ''ORDERS_CREATE'' ''H'')))
             (buildCheckQuery ''ORDERS_CREATE'') = Inr []"
    by (simp add: answeringClient_def)
  have a: "query_any
             (answeringClient (Inr []) (Inr createdBody)
                (shop (exampleOptions ''ORDERS_CREATE'' ''H''))
                (accessToken (exampleOptions ''ORDERS_CREATE'' ''H'')))
             (buildQuery ''ORDERS_CREATE'' ''https://host/cb''
                (case deliveryMethod (exampleOptions ''ORDERS_CREATE'' ''H'') of
                   None \<Rightarrow> Http | Some m \<Rightarrow> m) None) = Inr createdBody"
    by (simp add: answeringClient_def)
  have s: "spec_containsSubscription createdBody
             (spec_mutationName
                (case deliveryMethod (exampleOptions ''ORDERS_CREATE'' ''H'') of
                   None \<Rightarrow> Http | Some m \<Rightarrow> m) False)"
    by (simp add: spec_containsSubscription_def spec_hasNode_def spec_node_def
          spec_mutationName_def createdBody_def exampleOptions_def)
  show ?thesis
    using register_then_process_dispatches
      [where H = shopifyHeader and options = "exampleOptions ''ORDERS_CREATE'' ''H''"
         and ctx = exampleContext and G = "answeringClient (Inr []) (Inr createdBody)"
         and answer = createdBody and reg = "[]" and body = exampleBody]
      n d o c a s
    by (simp add: shopifyHeader_def generatedHash_exampleBody exampleOptions_fields)
qed




end
